theory Spec2Isabelle
  imports Complex_Main "HOL-Library.Word" "HOL-Library.AList" "HOL-Library.Char_ord"
    "HOL-Library.List_Lexorder"
begin

unbundle bit_operations_syntax

section \<open>Python values\<close>

text \<open>
  A shallow embedding of \<^verbatim>\<open>ble_meters.py\<close>. A notification payload is a
  \<^verbatim>\<open>bytearray\<close>: a list of 8-bit words. Python integers are \<open>int\<close> or
  \<open>nat\<close>. Every exception the modelled code can raise is a value of \<open>pyerr\<close>, and a
  function that can raise returns \<open>pyerr + 'a\<close>.
\<close>

type_synonym byte = "8 word"

datatype pyerr =
    KeyError | IndexError | ValueError | TypeError | NameError | AttributeError
  | UnicodeDecodeError | RuntimeError | ZeroDivisionError | TimeoutError | BleakError

text \<open>
  The numbers a decoder hands out are Python ints, floats, \<^verbatim>\<open>float('inf')\<close> and, for
  some display strings, a \<^verbatim>\<open>str\<close>. Floating-point arithmetic is not evaluated: a float
  is kept as the expression that computes it, the float operand written as the
  literal of the source (\<^verbatim>\<open>n * 0.001\<close> is \<open>PMul n ''0.001''\<close>).
\<close>

datatype pyval =
    PInt int
  | PMul pyval string
  | PDiv pyval string
  | PInf
  | PStr string

text \<open>The values stored in the \<^verbatim>\<open>lcd\<close> dict; the dict keeps insertion order.\<close>

datatype lcdval = LTrue | LNone | LStr string | LVal pyval

type_synonym lcd = "(string \<times> lcdval) list"

text \<open>One \<^verbatim>\<open>(lcd, number, units)\<close> tuple; \<open>None\<close> is Python's \<^verbatim>\<open>None\<close>.\<close>

type_synonym triple = "lcd option \<times> pyval option \<times> string option"

text \<open>
  What \<^verbatim>\<open>decode\<close> returns: a list of triples, or (one path of
  \<^verbatim>\<open>HP90EPD_Decoder.decode\<close>) the bare tuple \<^verbatim>\<open>(None, None, None)\<close>.
  Iterating over the bare tuple gives \<^verbatim>\<open>None\<close> three times.
\<close>

datatype decoded = ResultList "triple list" | ResultTuple

fun iterate :: "decoded \<Rightarrow> triple option list" where
  "iterate (ResultList ts) = map Some ts"
| "iterate ResultTuple = [None, None, None]"

section \<open>Decoder objects\<close>

text \<open>
  The classes \<^verbatim>\<open>make_decoder\<close> can build. The only field a decoder object changes
  after construction is \<^verbatim>\<open>HP90EPD_Decoder.buffer\<close>.
\<close>

datatype model =
    TS04 | HP90EPD | AN9002 | V05B | WT81B | UT383BT | TP357 | TS02
  | K1705 | BT980D | BT7200_APP | BT985C_APP | Dummy

record decoder =
  model :: model
  buffer :: "byte list"

section \<open>Python strings\<close>

text \<open>
  \<^verbatim>\<open>str.isspace\<close> on a code point below 256, \<^verbatim>\<open>str.strip()\<close>,
  \<^verbatim>\<open>sep.join(xs)\<close>, \<^verbatim>\<open>str(n)\<close> for \<open>n \<ge> 0\<close>, \<^verbatim>\<open>'0x%02X' % n\<close> and
  \<^verbatim>\<open>'{0:08b}'.format(x)\<close> for a byte.
\<close>

definition py_isspace :: "char \<Rightarrow> bool" where
  "py_isspace c =
     (let n = (of_char c :: nat)
      in (9 \<le> n \<and> n \<le> 13) \<or> (28 \<le> n \<and> n \<le> 32) \<or> n = 133 \<or> n = 160)"

definition py_strip :: "string \<Rightarrow> string" where
  "py_strip s = rev (dropWhile py_isspace (rev (dropWhile py_isspace s)))"

fun py_join :: "string \<Rightarrow> string list \<Rightarrow> string" where
  "py_join sep [] = []"
| "py_join sep [x] = x"
| "py_join sep (x # y # ys) = x @ sep @ py_join sep (y # ys)"

definition digit_char :: "nat \<Rightarrow> char" where
  "digit_char n = char_of (48 + n)"

function py_str :: "nat \<Rightarrow> string" where
  "py_str n = (if n < 10 then [digit_char n] else py_str (n div 10) @ [digit_char (n mod 10)])"
  by pat_completeness auto
termination
  by (relation "measure (\<lambda>n. n)") auto

definition hex_char :: "nat \<Rightarrow> char" where
  "hex_char n = (if n < 10 then char_of (48 + n) else char_of (55 + n))"

definition hex_byte :: "byte \<Rightarrow> string" where
  "hex_byte b = ''0x'' @ [hex_char (unat b div 16), hex_char (unat b mod 16)]"

definition bin_byte :: "byte \<Rightarrow> string" where
  "bin_byte b = map (\<lambda>i. if bit b (7 - i) then CHR ''1'' else CHR ''0'') [0..<8]"

text \<open>
  \<^verbatim>\<open>int(s, 10)\<close> for a string of code points below 256: surrounding whitespace is
  dropped, one sign is allowed, and the rest is decimal digits with single
  underscores between digits. Anything else raises \<^verbatim>\<open>ValueError\<close>. The
  whitespace \<^verbatim>\<open>int\<close> drops is not that of \<^verbatim>\<open>str.strip()\<close>: it is tab, line
  feed, vertical tab, form feed, carriage return and space, and the two code points
  above 127 that \<^verbatim>\<open>int\<close> first turns into a space (0x85 and 0xA0); the separators
  0x1C to 0x1F are not dropped, so \<^verbatim>\<open>int('\\x1c12', 10)\<close> raises \<^verbatim>\<open>ValueError\<close>.
\<close>

definition int_isspace :: "char \<Rightarrow> bool" where
  "int_isspace c =
     (let n = (of_char c :: nat)
      in (9 \<le> n \<and> n \<le> 13) \<or> n = 32 \<or> n = 133 \<or> n = 160)"

definition int_strip :: "string \<Rightarrow> string" where
  "int_strip s = rev (dropWhile int_isspace (rev (dropWhile int_isspace s)))"

definition is_digit :: "char \<Rightarrow> bool" where
  "is_digit c = (48 \<le> (of_char c :: nat) \<and> (of_char c :: nat) \<le> 57)"

fun py_digits :: "string \<Rightarrow> bool \<Rightarrow> int \<Rightarrow> int option" where
  "py_digits [] after_digit acc = (if after_digit then Some acc else None)"
| "py_digits (c # cs) after_digit acc =
     (if is_digit c then py_digits cs True (10 * acc + (of_char c - 48))
      else if c = CHR ''_'' \<and> after_digit then py_digits cs False acc
      else None)"

definition py_int :: "string \<Rightarrow> pyerr + int" where
  "py_int s =
     (case int_strip s of
        [] \<Rightarrow> Inl ValueError
      | c # cs \<Rightarrow>
          (case (if c = CHR ''-'' then map_option uminus (py_digits cs False 0)
                 else if c = CHR ''+'' then py_digits cs False 0
                 else py_digits (c # cs) False 0) of
             None \<Rightarrow> Inl ValueError
           | Some n \<Rightarrow> Inr n))"

section \<open>The decoder engine (\<^verbatim>\<open>LCD_Decoder\<close>)\<close>

text \<open>A dict that keeps insertion order: \<^verbatim>\<open>k in d\<close>, \<^verbatim>\<open>d[k]\<close> and \<^verbatim>\<open>d[k] = v\<close>.\<close>

definition has_key :: "('k \<times> 'v) list \<Rightarrow> 'k \<Rightarrow> bool" where
  "has_key d k = (map_of d k \<noteq> None)"

definition dict_get :: "('k \<times> 'v) list \<Rightarrow> 'k \<Rightarrow> pyerr + 'v" where
  "dict_get d k = (case map_of d k of None \<Rightarrow> Inl KeyError | Some v \<Rightarrow> Inr v)"

definition dict_set :: "'k \<Rightarrow> 'v \<Rightarrow> ('k \<times> 'v) list \<Rightarrow> ('k \<times> 'v) list" where
  "dict_set k v d = AList.update k v d"

text \<open>\<^verbatim>\<open>data[i]\<close> on a list: \<^verbatim>\<open>IndexError\<close> past the end.\<close>

definition item_at :: "'a list \<Rightarrow> nat \<Rightarrow> pyerr + 'a" where
  "item_at xs i = (if i < length xs then Inr (xs ! i) else Inl IndexError)"

text \<open>
  The loop over \<^verbatim>\<open>self.flags\<close> in \<^verbatim>\<open>decode_lcd\<close>: each entry is
  \<^verbatim>\<open>(name, byte, bit)\<close>.
\<close>

type_synonym flagspec = "string \<times> nat \<times> nat"

fun set_flags :: "flagspec list \<Rightarrow> byte list \<Rightarrow> lcd \<Rightarrow> pyerr + lcd" where
  "set_flags [] data l = Inr l"
| "set_flags ((flag, byte_ix, bit_ix) # fs) data l =
     (case item_at data byte_ix of
        Inl e \<Rightarrow> Inl e
      | Inr b \<Rightarrow> set_flags fs data (if bit b bit_ix then dict_set flag LTrue l else l))"

text \<open>
  \<^verbatim>\<open>LCD_Decoder.decode_lcd\<close>, with the model's \<^verbatim>\<open>flags\<close>, the result of its
  \<^verbatim>\<open>decode_digits\<close> and its \<^verbatim>\<open>mode_strings\<close>. \<^verbatim>\<open>decode_digits\<close> runs after the
  flag loop, so it is passed as a function of the data.
\<close>

definition decode_lcd ::
  "flagspec list \<Rightarrow> (byte list \<Rightarrow> pyerr + lcdval) \<Rightarrow> (string \<times> string) list \<Rightarrow> byte list
   \<Rightarrow> pyerr + lcd" where
  "decode_lcd flags decode_digits mode_strings data =
     (case set_flags flags data [] of
        Inl e \<Rightarrow> Inl e
      | Inr l \<Rightarrow>
          (case decode_digits data of
             Inl e \<Rightarrow> Inl e
           | Inr digits \<Rightarrow>
               (let l1 = dict_set ''digits'' digits l
                in case digits of
                     LStr ds \<Rightarrow>
                       (case map_of mode_strings ds of
                          None \<Rightarrow> Inr l1
                        | Some flag \<Rightarrow> Inr (dict_set flag LTrue l1))
                   | _ \<Rightarrow> Inr l1)))"

text \<open>The base class's \<^verbatim>\<open>decode_digits\<close> is \<^verbatim>\<open>pass\<close>: it returns \<^verbatim>\<open>None\<close>.\<close>

definition no_digits :: "byte list \<Rightarrow> pyerr + lcdval" where
  "no_digits data = Inr LNone"

text \<open>
  \<^verbatim>\<open>self.scaling\<close> in the order of the dict. A factor is an int or a float, kept
  as its literal; \<^verbatim>\<open>n *= x\<close> stays an int when both are ints.
\<close>

datatype factor = IntFactor int | FloatFactor string

definition scaling :: "(string \<times> factor) list" where
  "scaling =
     [(''negative'', IntFactor (- 1)), (''positive'', IntFactor 1),
      (''/1000'', FloatFactor ''0.001''), (''/100'', FloatFactor ''0.01''),
      (''/10'', FloatFactor ''0.1''), (''kilo'', IntFactor 1000),
      (''mega'', FloatFactor ''1e6''), (''milli'', FloatFactor ''0.001''),
      (''micro'', FloatFactor ''1e-6''), (''nano'', FloatFactor ''1e-9''),
      (''x10'', IntFactor 10), (''x100'', IntFactor 100)]"

fun int_literal :: "int \<Rightarrow> string" where
  "int_literal k = (if k < 0 then CHR ''-'' # py_str (nat (- k)) else py_str (nat k))"

fun py_mul :: "pyval \<Rightarrow> factor \<Rightarrow> pyval" where
  "py_mul (PInt n) (IntFactor k) = PInt (n * k)"
| "py_mul v (IntFactor k) = PMul v (int_literal k)"
| "py_mul v (FloatFactor x) = PMul v x"

fun apply_scaling :: "(string \<times> factor) list \<Rightarrow> lcd \<Rightarrow> pyval \<Rightarrow> pyval" where
  "apply_scaling [] l n = n"
| "apply_scaling ((flag, x) # fs) l n =
     apply_scaling fs l (if has_key l flag then py_mul n x else n)"

text \<open>
  \<^verbatim>\<open>lcd_to_number\<close> with the model's \<^verbatim>\<open>strings\<close>. \<^verbatim>\<open>int(None, 10)\<close> raises
  \<^verbatim>\<open>TypeError\<close>.
\<close>

definition lcd_to_number :: "(string \<times> pyval) list \<Rightarrow> lcd \<Rightarrow> pyerr + pyval" where
  "lcd_to_number strings l =
     (case dict_get l ''digits'' of
        Inl e \<Rightarrow> Inl e
      | Inr (LStr ds) \<Rightarrow>
          (case map_of strings ds of
             Some v \<Rightarrow> Inr v
           | None \<Rightarrow>
               (case py_int ds of
                  Inl e \<Rightarrow> Inl e
                | Inr n \<Rightarrow>
                    (let v = apply_scaling scaling l (PInt n)
                     in if has_key l ''(overload)'' then Inr PInf else Inr v)))
      | Inr _ \<Rightarrow> Inl TypeError)"

definition modes :: "string list" where
  "modes =
     [''DC'', ''AC'', ''volts'', ''amps'', ''ohms'', ''NCV'', ''diode'', ''continuity'',
      ''celsius'', ''fahrenheit'', ''farads'', ''hertz'', ''%duty'', ''lux'', ''fc'',
      ''degrees'', ''%RH'', ''grams'', ''(auto)'', ''(hold)'', ''(relative)'',
      ''(maximum)'', ''(minimum)'', ''(low_batt)'']"

definition lcd_to_units :: "lcd \<Rightarrow> string" where
  "lcd_to_units l = py_join '' '' (filter (has_key l) modes)"

text \<open>
  \<^verbatim>\<open>match\<close>: a pattern entry is a byte or the wildcard \<^verbatim>\<open>'.'\<close> (\<open>None\<close>).
\<close>

fun match_zip :: "byte option list \<Rightarrow> byte list \<Rightarrow> bool" where
  "match_zip (p # ps) (d # ds) =
     (case p of None \<Rightarrow> match_zip ps ds | Some b \<Rightarrow> if b \<noteq> d then False else match_zip ps ds)"
| "match_zip ps ds = True"

definition match :: "byte list \<Rightarrow> byte option list \<Rightarrow> bool" where
  "match data pattern =
     (if length pattern \<noteq> length data then False else match_zip pattern data)"

text \<open>
  \<^verbatim>\<open>match2\<close>: the pattern is a string of hex digits and \<^verbatim>\<open>'.'\<close>, two per byte,
  spaces ignored. The patterns of the source hold nothing else, so \<^verbatim>\<open>int(p, 16)\<close>
  does not raise.
\<close>

definition hex_value :: "char \<Rightarrow> nat" where
  "hex_value c =
     (let n = (of_char c :: nat)
      in if 48 \<le> n \<and> n \<le> 57 then n - 48 else if 97 \<le> n then n - 87 else n - 55)"

fun match2_loop :: "string \<Rightarrow> byte list \<Rightarrow> bool" where
  "match2_loop (p1 # p2 # ps) (d # ds) =
     (if p1 \<noteq> CHR ''.'' \<and> hex_value p1 \<noteq> unat (drop_bit 4 (d AND 0xF0)) then False
      else if p2 \<noteq> CHR ''.'' \<and> hex_value p2 \<noteq> unat (d AND 0x0F) then False
      else match2_loop ps ds)"
| "match2_loop ps ds = True"

definition match2 :: "byte list \<Rightarrow> string \<Rightarrow> bool" where
  "match2 data pattern =
     (let p = filter (\<lambda>c. c \<noteq> CHR '' '') pattern
      in if length p \<noteq> length data * 2 then False else match2_loop p data)"

text \<open>
  A decoder call gives the lines it printed and either the exception that left
  \<^verbatim>\<open>decode\<close> or the value returned.
\<close>

type_synonym outcome = "string list \<times> (pyerr + decoded)"

definition absent :: decoded where
  "absent = ResultList [(None, None, None)]"

definition unrecognized :: "string \<Rightarrow> byte list \<Rightarrow> outcome" where
  "unrecognized name data =
     ([''WARNING: unrecognized '' @ name @ '' data '' @ py_join '' '' (map hex_byte data)],
      Inr absent)"

text \<open>
  The last lines shared by most models:
  \<^verbatim>\<open>return [(lcd, self.lcd_to_number(lcd), self.lcd_to_units(lcd))]\<close>.
\<close>

definition reading :: "(string \<times> pyval) list \<Rightarrow> lcd \<Rightarrow> pyerr + decoded" where
  "reading strings l =
     (case lcd_to_number strings l of
        Inl e \<Rightarrow> Inl e
      | Inr n \<Rightarrow> Inr (ResultList [(Some l, Some n, Some (lcd_to_units l))]))"

text \<open>\<^verbatim>\<open>merge_digit\<close>: the lookup of a merged bit pattern in \<^verbatim>\<open>self.segments\<close>.\<close>

definition segment :: "(byte \<times> char) list \<Rightarrow> byte \<Rightarrow> pyerr + char" where
  "segment segments x = dict_get segments x"

text \<open>
  \<^verbatim>\<open>decode_digits\<close> of the segment models: four digits, each merged from the bytes
  at a pair of indices.
\<close>

fun merge_digits ::
  "(byte \<Rightarrow> byte \<Rightarrow> pyerr + char) \<Rightarrow> (nat \<times> nat) list \<Rightarrow> byte list \<Rightarrow> pyerr + string" where
  "merge_digits merge_digit [] data = Inr []"
| "merge_digits merge_digit ((i, j) # ps) data =
     (case item_at data i of Inl e \<Rightarrow> Inl e | Inr b1 \<Rightarrow>
     (case item_at data j of Inl e \<Rightarrow> Inl e | Inr b2 \<Rightarrow>
     (case merge_digit b1 b2 of Inl e \<Rightarrow> Inl e | Inr c \<Rightarrow>
     (case merge_digits merge_digit ps data of Inl e \<Rightarrow> Inl e | Inr cs \<Rightarrow> Inr (c # cs)))))"

definition segment_digits ::
  "(byte \<Rightarrow> byte \<Rightarrow> pyerr + char) \<Rightarrow> (nat \<times> nat) list \<Rightarrow> byte list \<Rightarrow> pyerr + lcdval" where
  "segment_digits merge_digit pairs data =
     (case merge_digits merge_digit pairs data of Inl e \<Rightarrow> Inl e | Inr ds \<Rightarrow> Inr (LStr ds))"

section \<open>The models\<close>

subsection \<open>\<^verbatim>\<open>TS04_Decoder\<close>\<close>

definition flags_TS04 :: "flagspec list" where
  "flags_TS04 =
     [(''negative'', 1, 4),
      (''(auto)'', 1, 2),
      (''DC'', 1, 1),
      (''AC'', 1, 0),
      (''/1000'', 2, 4),
      (''/100'', 3, 4),
      (''/10'', 4, 4),
      (''diode'', 5, 7),
      (''kilo'', 5, 6),
      (''micro'', 5, 4),
      (''(hold)'', 6, 7),
      (''ohms'', 6, 5),
      (''continuity'', 6, 3),
      (''mega'', 6, 2),
      (''milli'', 6, 0),
      (''NCV'', 7, 7),
      (''bluetooth'', 7, 6),
      (''celsius'', 7, 5),
      (''fahrenheit'', 7, 4),
      (''(low_batt)'', 7, 3),
      (''volts'', 7, 1),
      (''amps'', 7, 0),
      (''auto_off'', 8, 0)]"

definition segments_TS04 :: "(byte \<times> char) list" where
  "segments_TS04 =
     [(0x00, CHR '' ''),
      (0xEB, CHR ''0''),
      (0x0A, CHR ''1''),
      (0xAD, CHR ''2''),
      (0x8F, CHR ''3''),
      (0x4E, CHR ''4''),
      (0xC7, CHR ''5''),
      (0xE7, CHR ''6''),
      (0x8A, CHR ''7''),
      (0xEF, CHR ''8''),
      (0xCF, CHR ''9''),
      (0x61, CHR ''L''),
      (0xE5, CHR ''E''),
      (0xE4, CHR ''F''),
      (0x04, CHR ''-'')]"

definition strings_TS04 :: "(string \<times> pyval) list" where
  "strings_TS04 =
     [(''    '', PStr ''?''),
      ('' EF '', PInt 0),
      (''   -'', PInt 1),
      (''  --'', PInt 2),
      ('' ---'', PInt 3),
      (''----'', PInt 4),
      ('' 0L '', PInf)]"

text \<open>The bytes of \<^verbatim>\<open>b'SPP:sendData 08\\s\\n\\'\<close>.\<close>

definition send_data :: "byte list" where
  "send_data = [0x53, 0x50, 0x50, 0x3A, 0x73, 0x65, 0x6E, 0x64, 0x44, 0x61, 0x74, 0x61, 0x20, 0x30, 0x38, 0x5C, 0x73, 0x5C, 0x6E, 0x5C]"

definition merge_digit_TS04 :: "byte \<Rightarrow> byte \<Rightarrow> pyerr + char" where
  "merge_digit_TS04 byte1 byte2 = segment segments_TS04 ((byte1 AND 0xE0) OR (byte2 AND 0x0F))"

text \<open>The index pairs \<^verbatim>\<open>decode_digits\<close> merges, digit by digit.\<close>

definition pairs_TS04 :: "(nat \<times> nat) list" where
  "pairs_TS04 = [(1, 2), (2, 3), (3, 4), (4, 5)]"

definition decode_digits_TS04 :: "byte list \<Rightarrow> pyerr + lcdval" where
  "decode_digits_TS04 = segment_digits merge_digit_TS04 pairs_TS04"

definition decode_TS04 :: "byte list \<Rightarrow> outcome" where
  "decode_TS04 data =
     (if data = send_data then ([], Inr absent)
      else if length data \<noteq> 9 then ([], Inr absent)
      else ([], case decode_lcd flags_TS04 decode_digits_TS04 [] data of
                  Inl e \<Rightarrow> Inl e
                | Inr l \<Rightarrow> reading strings_TS04 l))"

subsection \<open>\<^verbatim>\<open>HP90EPD_Decoder\<close>\<close>

definition flags_HP90EPD :: "flagspec list" where
  "flags_HP90EPD =
     [(''(auto)'', 0, 1),
      (''AC'', 0, 3),
      (''(hold)'', 11, 0),
      (''mega'', 10, 1),
      (''kilo'', 9, 1),
      (''milli'', 10, 3),
      (''micro'', 9, 3),
      (''nano'', 9, 2),
      (''diode'', 9, 0),
      (''continuity'', 10, 0),
      (''%duty'', 10, 2),
      (''(relative)'', 11, 1),
      (''ohms'', 11, 2),
      (''farads'', 11, 3),
      (''hertz'', 12, 1),
      (''volts'', 12, 2),
      (''amps'', 12, 3),
      (''celsius'', 13, 2),
      (''negative'', 1, 3),
      (''/1000'', 3, 3),
      (''/100'', 5, 3),
      (''/10'', 7, 3),
      (''(low_batt)'', 12, 0),
      (''mystery_1'', 0, 2),
      (''mystery_2'', 13, 0)]"

definition segments_HP90EPD :: "(byte \<times> char) list" where
  "segments_HP90EPD =
     [(0x00, CHR '' ''),
      (0x7D, CHR ''0''),
      (0x05, CHR ''1''),
      (0x5B, CHR ''2''),
      (0x1F, CHR ''3''),
      (0x27, CHR ''4''),
      (0x3E, CHR ''5''),
      (0x7E, CHR ''6''),
      (0x15, CHR ''7''),
      (0x7F, CHR ''8''),
      (0x3F, CHR ''9''),
      (0x68, CHR ''L'')]"

definition strings_HP90EPD :: "(string \<times> pyval) list" where
  "strings_HP90EPD =
     [(''    '', PStr ''?''),
      ('' 0L '', PInf)]"

definition merge_digit_HP90EPD :: "byte \<Rightarrow> byte \<Rightarrow> pyerr + char" where
  "merge_digit_HP90EPD byte1 byte2 =
     segment segments_HP90EPD (push_bit 4 (byte1 AND 0x07) OR (byte2 AND 0x0F))"

definition pairs_HP90EPD :: "(nat \<times> nat) list" where
  "pairs_HP90EPD = [(1, 2), (3, 4), (5, 6), (7, 8)]"

definition decode_digits_HP90EPD :: "byte list \<Rightarrow> pyerr + lcdval" where
  "decode_digits_HP90EPD = segment_digits merge_digit_HP90EPD pairs_HP90EPD"

text \<open>
  The decoder keeps the first packet of a pair in \<^verbatim>\<open>self.buffer\<close>: the function
  takes the buffer and returns the new one. Line 286 returns the bare tuple. When
  \<^verbatim>\<open>decode_lcd\<close> raises, the buffer is left as it was; \<^verbatim>\<open>lcd_to_number\<close> runs
  after the buffer is cleared.
\<close>

definition decode_HP90EPD :: "byte list \<Rightarrow> byte list \<Rightarrow> outcome \<times> byte list" where
  "decode_HP90EPD buf data =
     (if length data = 8 then (([], Inr absent), data)
      else if length data = 6 \<and> length buf = 8 then
        (case decode_lcd flags_HP90EPD decode_digits_HP90EPD [] (buf @ data) of
           Inl e \<Rightarrow> (([], Inl e), buf)
         | Inr l \<Rightarrow>
             (let l1 = (if has_key l ''volts'' \<or> has_key l ''amps''
                        then (if has_key l ''AC'' then l else dict_set ''DC'' LTrue l)
                        else l)
              in (([], reading strings_HP90EPD l1), [])))
      else (([], Inr ResultTuple), []))"

subsection \<open>\<^verbatim>\<open>AN9002_Decoder\<close> and \<^verbatim>\<open>V05B_Decoder\<close>\<close>

definition flip_bits_AN9002 :: "byte list" where
  "flip_bits_AN9002 = [0x1B, 0x84, 0x70, 0x55, 0xA2, 0xC1, 0x32, 0x71, 0x66, 0xAA, 0x3B]"

definition flags_AN9002 :: "flagspec list" where
  "flags_AN9002 =
     [(''(auto)'', 10, 0),
      (''/1000'', 4, 4),
      (''/100'', 5, 4),
      (''/10'', 6, 4),
      (''(relative)'', 3, 1),
      (''(maximum)'', 8, 0),
      (''(minimum)'', 8, 1),
      (''AC'', 8, 3),
      (''DC'', 9, 6),
      (''hertz'', 9, 0),
      (''%duty'', 8, 2),
      (''(hold)'', 7, 4),
      (''milli'', 9, 5),
      (''negative'', 3, 4),
      (''celsius'', 7, 6),
      (''fahrenheit'', 7, 5),
      (''volts'', 9, 4),
      (''ohms'', 9, 1),
      (''mega'', 9, 3),
      (''kilo'', 9, 2),
      (''farads'', 8, 4),
      (''nano'', 8, 7),
      (''micro'', 8, 5),
      (''milli'', 8, 6),
      (''amps'', 9, 7),
      (''milli'', 10, 3),
      (''micro'', 10, 2),
      (''diode'', 7, 7),
      (''continuity'', 3, 3),
      (''(low_batt)'', 3, 0)]"

text \<open>
  \<^verbatim>\<open>dict(TS04_Decoder().segments)\<close> updated with four more patterns.
\<close>

definition segments_AN9002 :: "(byte \<times> char) list" where
  "segments_AN9002 =
     segments_TS04 @ [(0xEE, CHR ''A''), (0x23, CHR ''u''), (0x65, CHR ''t''), (0x27, CHR ''o'')]"

definition strings_AN9002 :: "(string \<times> pyval) list" where
  "strings_AN9002 =
     [(''Auto'', PStr ''?''),
      (''    '', PStr ''?''),
      ('' EF '', PInt 0),
      (''-   '', PInt 1),
      (''--  '', PInt 2),
      (''--- '', PInt 3),
      (''----'', PInt 4),
      ('' 0L '', PInf)]"

definition mode_strings_AN9002 :: "(string \<times> string) list" where
  "mode_strings_AN9002 =
     [('' EF '', ''NCV''),
      (''-   '', ''NCV''),
      (''--  '', ''NCV''),
      (''--- '', ''NCV''),
      (''----'', ''NCV'')]"

definition merge_digit_AN9002 :: "byte \<Rightarrow> byte \<Rightarrow> pyerr + char" where
  "merge_digit_AN9002 byte1 byte2 = segment segments_AN9002 ((byte1 AND 0xE0) OR (byte2 AND 0x0F))"

definition pairs_AN9002 :: "(nat \<times> nat) list" where
  "pairs_AN9002 = [(3, 4), (4, 5), (5, 6), (6, 7)]"

definition decode_digits_AN9002 :: "byte list \<Rightarrow> pyerr + lcdval" where
  "decode_digits_AN9002 = segment_digits merge_digit_AN9002 pairs_AN9002"

text \<open>
  \<^verbatim>\<open>for i,x in enumerate(self.flip_bits): data[i] ^= x\<close>, as the bytes
  \<^verbatim>\<open>decode_lcd\<close> then reads. The loop works on the caller's \<^verbatim>\<open>bytearray\<close> in
  place: what it leaves in that array is \<open>flipped\<close>.
\<close>

fun flip :: "byte list \<Rightarrow> byte list \<Rightarrow> pyerr + byte list" where
  "flip [] data = Inr data"
| "flip (x # xs) [] = Inl IndexError"
| "flip (x # xs) (d # ds) =
     (case flip xs ds of Inl e \<Rightarrow> Inl e | Inr r \<Rightarrow> Inr ((d XOR x) # r))"


definition decode_AN9002 :: "byte list \<Rightarrow> outcome" where
  "decode_AN9002 data =
     (if length data \<noteq> 11 then ([], Inr absent)
      else ([], case flip flip_bits_AN9002 data of
                  Inl e \<Rightarrow> Inl e
                | Inr data1 \<Rightarrow>
                    (case decode_lcd flags_AN9002 decode_digits_AN9002 mode_strings_AN9002 data1 of
                       Inl e \<Rightarrow> Inl e
                     | Inr l \<Rightarrow> reading strings_AN9002 l)))"

definition flags_V05B :: "flagspec list" where
  "flags_V05B =
     [(''/1000'', 4, 4),
      (''/100'', 5, 4),
      (''/10'', 6, 4),
      (''AC'', 8, 3),
      (''DC'', 8, 2),
      (''hertz'', 9, 5),
      (''(hold)'', 3, 1),
      (''high_volt'', 3, 2),
      (''buzzer'', 3, 3),
      (''negative'', 3, 4),
      (''celsius'', 9, 7),
      (''fahrenheit'', 9, 6),
      (''volts'', 8, 1),
      (''ohms'', 9, 0),
      (''mega'', 9, 3),
      (''kilo'', 9, 1),
      (''farads'', 8, 4),
      (''nano'', 8, 0),
      (''micro'', 8, 7),
      (''milli'', 9, 2),
      (''amps'', 8, 6),
      (''diode'', 8, 5)]"

definition decode_V05B :: "byte list \<Rightarrow> outcome" where
  "decode_V05B data =
     (if length data \<noteq> 10 then ([], Inr absent)
      else ([], case flip (take 10 flip_bits_AN9002) data of
                  Inl e \<Rightarrow> Inl e
                | Inr data1 \<Rightarrow>
                    (case decode_lcd flags_V05B decode_digits_AN9002 mode_strings_AN9002 data1 of
                       Inl e \<Rightarrow> Inl e
                     | Inr l \<Rightarrow> reading strings_AN9002 l)))"

subsection \<open>\<^verbatim>\<open>WT81B_Decoder\<close>\<close>

definition flags_WT81B :: "flagspec list" where
  "flags_WT81B =
     [(''x100'', 3, 1),
      (''x10'', 3, 0)]"

definition pattern_WT81B :: "byte option list" where
  "pattern_WT81B =
     [Some 0xFF, Some 0x57, Some 0x4C, None, None, None, None, None]"

text \<open>\<^verbatim>\<open>(hi << 8) | lo\<close> on two bytes, as a Python int.\<close>

definition word16 :: "byte \<Rightarrow> byte \<Rightarrow> int" where
  "word16 hi lo = push_bit 8 (uint hi) OR uint lo"

text \<open>
  \<^verbatim>\<open>WT81B_Decoder.decode_lcd\<close>. The result is the dict together with its entries
  \<^verbatim>\<open>lcd['lux']\<close> and \<^verbatim>\<open>lcd['temperature']\<close>, which \<^verbatim>\<open>decode\<close> reads back. The
  floating-point test \<^verbatim>\<open>lcd['lux'] == 360600\<close> is the parameter \<open>is_overload\<close>.
\<close>

definition decode_lcd_WT81B ::
  "(pyval \<Rightarrow> bool) \<Rightarrow> byte list \<Rightarrow> pyerr + lcd \<times> pyval \<times> pyval" where
  "decode_lcd_WT81B is_overload data =
     (case set_flags flags_WT81B data [] of Inl e \<Rightarrow> Inl e | Inr l \<Rightarrow>
     (case item_at data 4 of Inl e \<Rightarrow> Inl e | Inr d4 \<Rightarrow>
     (case item_at data 5 of Inl e \<Rightarrow> Inl e | Inr d5 \<Rightarrow>
     (case item_at data 6 of Inl e \<Rightarrow> Inl e | Inr d6 \<Rightarrow>
     (case item_at data 7 of Inl e \<Rightarrow> Inl e | Inr d7 \<Rightarrow>
       (let temperature = PDiv (PInt (word16 d4 d5)) ''10'';
            lux0 = PDiv (PInt (word16 d6 d7)) ''10'';
            lux1 = (if has_key l ''x10'' then py_mul lux0 (IntFactor 10) else lux0);
            lux2 = (if has_key l ''x100'' then py_mul lux1 (IntFactor 100) else lux1);
            lux3 = (if is_overload lux2 then PInf else lux2)
        in Inr (dict_set ''lux'' (LVal lux3) (dict_set ''temperature'' (LVal temperature) l),
                lux3, temperature)))))))"

text \<open>
  \<^verbatim>\<open>data[3] > 3\<close> is read only when \<^verbatim>\<open>match\<close> holds, which makes the frame 8
  bytes long.
\<close>

definition decode_WT81B :: "(pyval \<Rightarrow> bool) \<Rightarrow> byte list \<Rightarrow> outcome" where
  "decode_WT81B is_overload data =
     (if \<not> match data pattern_WT81B then unrecognized ''WT81B'' data
      else case item_at data 3 of
             Inl e \<Rightarrow> ([], Inl e)
           | Inr d3 \<Rightarrow>
               if 3 < d3 then unrecognized ''WT81B'' data
               else ([], case decode_lcd_WT81B is_overload data of
                           Inl e \<Rightarrow> Inl e
                         | Inr (l, lux, temperature) \<Rightarrow>
                             Inr (ResultList [(Some l, Some lux, Some ''lux''),
                                              (Some l, Some temperature, Some ''celsius'')])))"

subsection \<open>\<^verbatim>\<open>UT383BT_Decoder\<close>\<close>

definition flags_UT383BT :: "flagspec list" where
  "flags_UT383BT =
     [(''(hold)'', 16, 0),
      (''(maximum)'', 16, 3),
      (''(minimum)'', 16, 2),
      (''(low_batt)'', 16, 6)]"

definition strings_UT383BT :: "(string \<times> pyval) list" where
  "strings_UT383BT =
     [(''    OL'', PInf)]"

definition pattern_UT383BT :: "byte option list" where
  "pattern_UT383BT =
     [Some 0xAA, Some 0xBB, Some 0x10, Some 0x01, Some 0x3A, None, None, None, None, None, None, Some 0x4C, Some 0x55, Some 0x58, None, Some 0x30, None, None, None]"

text \<open>\<^verbatim>\<open>bytes(xs).decode('ascii')\<close>.\<close>

definition decode_ascii :: "byte list \<Rightarrow> pyerr + string" where
  "decode_ascii xs =
     (if list_ex (\<lambda>b. 0x7F < b) xs then Inl UnicodeDecodeError
      else Inr (map (\<lambda>b. char_of (unat b)) xs))"

definition decode_UT383BT :: "byte list \<Rightarrow> outcome" where
  "decode_UT383BT data =
     (if \<not> match data pattern_UT383BT then unrecognized ''UT383BT'' data
      else ([], case decode_lcd flags_UT383BT no_digits [] data of
                  Inl e \<Rightarrow> Inl e
                | Inr l \<Rightarrow>
                    (case decode_ascii (take 6 (drop 5 data)) of
                       Inl e \<Rightarrow> Inl e
                     | Inr ds \<Rightarrow>
                         reading strings_UT383BT
                           (dict_set ''digits'' (LStr ds) (dict_set ''lux'' LTrue l)))))"

subsection \<open>\<^verbatim>\<open>TP357_Decoder\<close>\<close>

definition flags_TP357 :: "flagspec list" where
  "flags_TP357 =
     [(''(???)'', 2, 0)]"

definition pattern_TP357 :: "byte option list" where
  "pattern_TP357 =
     [Some 0xC2, Some 0x00, None, None, None, None, Some 0x2C]"

text \<open>
  \<^verbatim>\<open>TP357_Decoder.decode_lcd\<close>, returned with its entries \<^verbatim>\<open>lcd['temperature']\<close>
  and \<^verbatim>\<open>lcd['humidity']\<close>. Line 494 reads \<^verbatim>\<open>n\<close>, which nothing binds: a
  temperature with bit 15 set raises \<^verbatim>\<open>NameError\<close>.
\<close>

definition decode_lcd_TP357 :: "byte list \<Rightarrow> pyerr + lcd \<times> pyval \<times> pyval" where
  "decode_lcd_TP357 data =
     (case set_flags flags_TP357 data [] of Inl e \<Rightarrow> Inl e | Inr l \<Rightarrow>
     (case item_at data 4 of Inl e \<Rightarrow> Inl e | Inr d4 \<Rightarrow>
     (case item_at data 3 of Inl e \<Rightarrow> Inl e | Inr d3 \<Rightarrow>
       (if word16 d4 d3 AND 0x8000 \<noteq> 0 then Inl NameError
        else case item_at data 5 of Inl e \<Rightarrow> Inl e | Inr d5 \<Rightarrow>
          (let temperature = PDiv (PInt (word16 d4 d3)) ''10'';
               humidity = PInt (uint d5)
           in Inr (dict_set ''humidity'' (LVal humidity)
                     (dict_set ''temperature'' (LVal temperature) l),
                   temperature, humidity))))))"

definition decode_TP357 :: "byte list \<Rightarrow> outcome" where
  "decode_TP357 data =
     (if \<not> match data pattern_TP357 then unrecognized ''TP357'' data
      else case item_at data 2 of
             Inl e \<Rightarrow> ([], Inl e)
           | Inr d2 \<Rightarrow>
               if 1 < d2 then unrecognized ''TP357'' data
               else ([], case decode_lcd_TP357 data of
                           Inl e \<Rightarrow> Inl e
                         | Inr (l, temperature, humidity) \<Rightarrow>
                             Inr (ResultList [(Some l, Some temperature, Some ''celsius''),
                                              (Some l, Some humidity, Some ''%RH'')])))"

subsection \<open>\<^verbatim>\<open>TS02_Decoder\<close>\<close>

definition flags_TS02 :: "flagspec list" where
  "flags_TS02 =
     [(''negative'', 0, 2),
      (''positive'', 0, 1)]"

text \<open>
  \<^verbatim>\<open>check\<close>: each entry is \<^verbatim>\<open>data[i] & mask != value\<close>, tried in order; there is
  no test of the length, so a short frame raises \<^verbatim>\<open>IndexError\<close>. The last test,
  \<^verbatim>\<open>data[5] != 0x30\<close>, has the mask \<open>0xFF\<close>.
\<close>

fun check_bytes :: "(nat \<times> byte \<times> byte) list \<Rightarrow> byte list \<Rightarrow> pyerr + bool" where
  "check_bytes [] data = Inr True"
| "check_bytes ((i, mask_bits, v) # cs) data =
     (case item_at data i of
        Inl e \<Rightarrow> Inl e
      | Inr b \<Rightarrow> if b AND mask_bits \<noteq> v then Inr False else check_bytes cs data)"

definition check_TS02 :: "byte list \<Rightarrow> pyerr + bool" where
  "check_TS02 =
     check_bytes [(0, 0xF9, 0x29), (1, 0xF0, 0x30), (2, 0xF0, 0x30), (3, 0xF0, 0x30),
                  (4, 0xF0, 0x30), (5, 0xFF, 0x30)]"

fun bcd_digits :: "nat list \<Rightarrow> byte list \<Rightarrow> pyerr + string" where
  "bcd_digits [] data = Inr []"
| "bcd_digits (i # is) data =
     (case item_at data i of Inl e \<Rightarrow> Inl e | Inr b \<Rightarrow>
     (case bcd_digits is data of Inl e \<Rightarrow> Inl e | Inr r \<Rightarrow>
        Inr (py_str (unat (b AND 0x0F)) @ r)))"

definition decode_digits_TS02 :: "byte list \<Rightarrow> pyerr + lcdval" where
  "decode_digits_TS02 data =
     (case bcd_digits [1, 2, 3, 4] data of Inl e \<Rightarrow> Inl e | Inr ds \<Rightarrow> Inr (LStr ds))"

definition decode_TS02 :: "byte list \<Rightarrow> outcome" where
  "decode_TS02 data =
     (case check_TS02 data of
        Inl e \<Rightarrow> ([], Inl e)
      | Inr ok \<Rightarrow>
          if \<not> ok then unrecognized ''TS02'' data
          else ([], case decode_lcd flags_TS02 decode_digits_TS02 [] data of
                      Inl e \<Rightarrow> Inl e
                    | Inr l \<Rightarrow>
                        reading [] (dict_set ''/10'' LTrue (dict_set ''degrees'' LTrue l))))"

subsection \<open>\<^verbatim>\<open>K1705_Decoder\<close>\<close>

definition flags_K1705 :: "flagspec list" where
  "flags_K1705 =
     [(''(overload)'', 10, 7),
      (''negative'', 10, 4)]"

definition pattern_K1705 :: "byte option list" where
  "pattern_K1705 =
     [Some 0xA3, Some 0xBE, Some 0x15, Some 0x92, Some 0x93, Some 0x00, Some 0x00, Some 0xA0, Some 0x00, Some 0x00, None, None, None, None, Some 0xFF, Some 0x3E, Some 0xBA]"

definition decode_digits_K1705 :: "byte list \<Rightarrow> pyerr + lcdval" where
  "decode_digits_K1705 data =
     (case item_at data 11 of Inl e \<Rightarrow> Inl e | Inr d11 \<Rightarrow>
     (case item_at data 12 of Inl e \<Rightarrow> Inl e | Inr d12 \<Rightarrow>
     (case item_at data 13 of Inl e \<Rightarrow> Inl e | Inr d13 \<Rightarrow>
        Inr (LStr (py_str (unat d11 * 65536 + unat d12 * 256 + unat d13))))))"

definition decode_K1705 :: "byte list \<Rightarrow> outcome" where
  "decode_K1705 data =
     (if length data = 128 then ([], Inr absent)
      else if \<not> match data pattern_K1705 then unrecognized ''K1705'' data
      else ([], case decode_lcd flags_K1705 decode_digits_K1705 [] data of
                  Inl e \<Rightarrow> Inl e
                | Inr l \<Rightarrow>
                    reading [] (dict_set ''/100'' LTrue (dict_set ''grams'' LTrue l))))"

subsection \<open>\<^verbatim>\<open>BT980D_Decoder\<close>\<close>

definition flags_BT980D :: "flagspec list" where
  "flags_BT980D =
     [(''laser'', 5, 2),
      (''celsius'', 5, 0),
      (''fahrenheit'', 5, 1),
      (''backlight'', 5, 3)]"

definition pattern_BT980D_idle :: "byte option list" where
  "pattern_BT980D_idle =
     [Some 0xA7, Some 0x00, Some 0x20, Some 0x07, Some 0x85, Some 0x7D, Some 0x43, Some 0x33, Some 0x48, Some 0xDE, Some 0x70, Some 0x35, Some 0x7A]"

definition pattern_BT980D :: "byte option list" where
  "pattern_BT980D =
     [Some 0xA7, Some 0x00, Some 0x20, Some 0x0B, Some 0x8D, None, None, Some 0xC9, None, None, Some 0x8F, None, None, Some 0xCC, Some 0xBD, None, Some 0x7A]"

text \<open>
  The number is \<^verbatim>\<open>Dummy_Decoder().hex(data)\<close>; the units are the sorted keys of the
  dict without \<^verbatim>\<open>'digits'\<close>, in the order of the code points.
\<close>

definition decode_BT980D :: "byte list \<Rightarrow> outcome" where
  "decode_BT980D data =
     (if match data pattern_BT980D_idle then ([], Inr absent)
      else if \<not> match data pattern_BT980D then unrecognized ''BT980D'' data
      else ([], case decode_lcd flags_BT980D no_digits [] data of
                  Inl e \<Rightarrow> Inl e
                | Inr l \<Rightarrow>
                    Inr (ResultList
                      [(Some l, Some (PStr (py_join '' '' (map hex_byte data))),
                        Some (py_join '' ''
                          (sort (remdups (filter (\<lambda>k. k \<noteq> ''digits'') (map fst l))))))])))"

subsection \<open>\<^verbatim>\<open>BT7200_APP_Decoder\<close>\<close>

definition flags_BT7200_APP :: "flagspec list" where
  "flags_BT7200_APP =
     [(''(hold)'', 11, 3),
      (''(auto)'', 0, 2),
      (''(minimum)'', 14, 1),
      (''(maximum)'', 14, 3),
      (''(relative)'', 11, 2),
      (''(low_batt)'', 12, 3),
      (''diode'', 9, 3),
      (''continuity'', 10, 3),
      (''/1000'', 3, 0),
      (''/100'', 5, 0),
      (''/10'', 7, 0),
      (''negative'', 1, 0),
      (''milli'', 10, 0),
      (''mega'', 10, 2),
      (''DC'', 0, 1),
      (''AC'', 0, 0),
      (''ohms'', 11, 1),
      (''hertz'', 12, 2),
      (''%duty'', 10, 1),
      (''celsius'', 13, 1),
      (''fahrenheit'', 13, 0),
      (''NCV'', 13, 3),
      (''amps'', 12, 0),
      (''volts'', 12, 1)]"

text \<open>
  The segments are those of TS04, the strings those of AN9002; \<^verbatim>\<open>mode_strings\<close> is
  the empty dict of the base class. The digits merge the same index pairs as
  HP90EPD.
\<close>

definition merge_digit_BT7200_APP :: "byte \<Rightarrow> byte \<Rightarrow> pyerr + char" where
  "merge_digit_BT7200_APP byte1 byte2 =
     segment segments_TS04 (push_bit 4 (byte1 AND 0x0E) OR (byte2 AND 0x0F))"

definition decode_digits_BT7200_APP :: "byte list \<Rightarrow> pyerr + lcdval" where
  "decode_digits_BT7200_APP = segment_digits merge_digit_BT7200_APP pairs_HP90EPD"

text \<open>
  The first lines of \<^verbatim>\<open>decode\<close>: a frame that lost its last or gained a leading
  byte is repaired.
\<close>

definition recover :: "byte list \<Rightarrow> byte list" where
  "recover data =
     (let data1 = (if match2 data ''1.2.3.4.5.6.7.8.9.A.B.C.D.E.'' then data @ [0xF0] else data)
      in if match2 data1 ''F.1.2.3.4.5.6.7.8.9.A.B.C.D.E.F.'' then tl data1 else data1)"

definition decode_BT7200_APP :: "byte list \<Rightarrow> outcome" where
  "decode_BT7200_APP data =
     (let data2 = recover data
      in if \<not> match2 data2 ''1.2.3.4.5.6.7.8.9.A.B.C.D.E.F.''
         then unrecognized ''BT7200_APP'' data2
         else ([], case decode_lcd flags_BT7200_APP decode_digits_BT7200_APP [] data2 of
                     Inl e \<Rightarrow> Inl e
                   | Inr l \<Rightarrow> reading strings_AN9002 l))"

subsection \<open>\<^verbatim>\<open>BT985C_APP_Decoder\<close>\<close>

definition flags_BT985C_APP :: "flagspec list" where
  "flags_BT985C_APP =
     [(''fahrenheit'', 6, 6),
      (''(scan)'', 6, 0),
      (''(memory)'', 6, 1),
      (''(laser)'', 6, 2),
      (''(backlight)'', 6, 3),
      (''(low_batt)'', 6, 4)]"

definition mode_table :: "(byte \<times> string) list" where
  "mode_table =
     [(0, ''max_celsius''), (1, ''avg_celsius''), (2, ''min_celsius''),
      (3, ''low_alarm_celsius''), (4, ''high_alarm_celsius''),
      (5, [char_of (206::nat), char_of (181::nat)])]"

definition temperature16 :: "byte \<Rightarrow> byte \<Rightarrow> pyval" where
  "temperature16 b1 b2 =
     (let t = uint b1 + push_bit 8 (uint b2)
      in PDiv (PInt (if b2 AND 0x80 \<noteq> 0 then t - 2 ^ 16 else t)) ''10.0'')"

text \<open>
  \<^verbatim>\<open>BT985C_APP_Decoder.decode_lcd\<close>, returned with the entries
  \<^verbatim>\<open>lcd['minor_reading']\<close>, \<^verbatim>\<open>lcd['minor_unit']\<close> and \<^verbatim>\<open>lcd['temperature']\<close>. A
  mode byte above 5 sets no minor reading and then misses in \<^verbatim>\<open>mode_table\<close>.
\<close>

definition decode_lcd_BT985C_APP :: "byte list \<Rightarrow> pyerr + lcd \<times> pyval \<times> string \<times> pyval" where
  "decode_lcd_BT985C_APP data =
     (case set_flags flags_BT985C_APP data [] of Inl e \<Rightarrow> Inl e | Inr l0 \<Rightarrow>
       (let l1 = (if has_key l0 ''fahrenheit'' then l0 else dict_set ''celsius'' LTrue l0);
            l2 = (if has_key l1 ''(scan)'' then l1 else dict_set ''(hold)'' LTrue l1)
        in case item_at data 1 of Inl e \<Rightarrow> Inl e | Inr md \<Rightarrow>
          (case (if md \<le> 4 then
                   (case item_at data 2 of Inl e \<Rightarrow> Inl e | Inr d2 \<Rightarrow>
                   (case item_at data 3 of Inl e \<Rightarrow> Inl e | Inr d3 \<Rightarrow>
                      Inr (Some (temperature16 d2 d3))))
                 else if md = 5 then
                   (case item_at data 3 of Inl e \<Rightarrow> Inl e | Inr d3 \<Rightarrow>
                      Inr (Some (PDiv (PInt (uint d3)) ''100'')))
                 else Inr None) of
             Inl e \<Rightarrow> Inl e
           | Inr minor \<Rightarrow>
               (case map_of mode_table md of
                  None \<Rightarrow> Inl KeyError
                | Some u \<Rightarrow>
                    (case item_at data 4 of Inl e \<Rightarrow> Inl e | Inr d4 \<Rightarrow>
                    (case item_at data 5 of Inl e \<Rightarrow> Inl e | Inr d5 \<Rightarrow>
                    (case minor of
                       None \<Rightarrow> Inl KeyError
                     | Some r \<Rightarrow>
                         Inr (dict_set ''temperature'' (LVal (temperature16 d4 d5))
                                (dict_set ''minor_unit'' (LStr u)
                                  (dict_set ''minor_reading'' (LVal r) l2)),
                              r, u, temperature16 d4 d5))))))))"

definition decode_BT985C_APP :: "byte list \<Rightarrow> outcome" where
  "decode_BT985C_APP data =
     (if \<not> match2 data ''BC 0. .. .. .. .. .. ..'' then unrecognized ''BT985C_APP'' data
      else ([], case decode_lcd_BT985C_APP data of
                  Inl e \<Rightarrow> Inl e
                | Inr (l, minor_reading, minor_unit, temperature) \<Rightarrow>
                    Inr (ResultList [(Some l, Some minor_reading, Some minor_unit),
                                     (Some l, Some temperature, Some ''celsius'')])))"

subsection \<open>\<^verbatim>\<open>Dummy_Decoder\<close>\<close>

text \<open>
  \<^verbatim>\<open>make_decoder('dummy')\<close> has no flags and no \<^verbatim>\<open>flip_bits\<close>, so
  \<^verbatim>\<open>unknown_binary\<close> is \<^verbatim>\<open>binary\<close> and the set of keys without \<^verbatim>\<open>'digits'\<close> has
  the one element \<^verbatim>\<open>'dummy'\<close>.
\<close>

definition decode_Dummy :: "byte list \<Rightarrow> outcome" where
  "decode_Dummy data =
     ([], case decode_lcd [] no_digits [] data of
            Inl e \<Rightarrow> Inl e
          | Inr l \<Rightarrow>
              (let l1 = dict_set ''dummy'' LTrue l
               in Inr (ResultList
                    [(Some l1, Some (PStr (py_join '' '' (map bin_byte data))),
                      Some (py_join '' '' (filter (\<lambda>k. k \<noteq> ''digits'') (map fst l1))))])))"

subsection \<open>\<^verbatim>\<open>decode\<close> of a decoder object\<close>

text \<open>\<^verbatim>\<open>self.model\<close>, the name a diagnostic prints.\<close>

fun model_name :: "model \<Rightarrow> string" where
  "model_name TS04 = ''TS04''"
| "model_name HP90EPD = ''HP90EPD''"
| "model_name AN9002 = ''AN9002''"
| "model_name V05B = ''V05B''"
| "model_name WT81B = ''WT81B''"
| "model_name UT383BT = ''UT383BT''"
| "model_name TP357 = ''TP357''"
| "model_name TS02 = ''TS02''"
| "model_name K1705 = ''K1705''"
| "model_name BT980D = ''BT980D''"
| "model_name BT7200_APP = ''BT7200_APP''"
| "model_name BT985C_APP = ''BT985C_APP''"
| "model_name Dummy = ''dummy''"

text \<open>
  The outcome and the decoder object afterwards. \<open>is_overload\<close> is the floating-point
  test of WT81B.
\<close>

definition decode :: "(pyval \<Rightarrow> bool) \<Rightarrow> decoder \<Rightarrow> byte list \<Rightarrow> outcome \<times> decoder" where
  "decode is_overload dec data =
     (case model dec of
        TS04 \<Rightarrow> (decode_TS04 data, dec)
      | HP90EPD \<Rightarrow>
          (fst (decode_HP90EPD (buffer dec) data),
           dec\<lparr>buffer := snd (decode_HP90EPD (buffer dec) data)\<rparr>)
      | AN9002 \<Rightarrow> (decode_AN9002 data, dec)
      | V05B \<Rightarrow> (decode_V05B data, dec)
      | WT81B \<Rightarrow> (decode_WT81B is_overload data, dec)
      | UT383BT \<Rightarrow> (decode_UT383BT data, dec)
      | TP357 \<Rightarrow> (decode_TP357 data, dec)
      | TS02 \<Rightarrow> (decode_TS02 data, dec)
      | K1705 \<Rightarrow> (decode_K1705 data, dec)
      | BT980D \<Rightarrow> (decode_BT980D data, dec)
      | BT7200_APP \<Rightarrow> (decode_BT7200_APP data, dec)
      | BT985C_APP \<Rightarrow> (decode_BT985C_APP data, dec)
      | Dummy \<Rightarrow> (decode_Dummy data, dec))"

section \<open>The session\<close>

text \<open>
  Timestamps (\<^verbatim>\<open>datetime.now(UTC)\<close>) are microseconds as \<open>int\<close>. The field
  \<^verbatim>\<open>lastseen\<close> holds \<^verbatim>\<open>0\<close> or a timestamp.
\<close>

datatype lastseen = Never | Seen int

record msg_spec =
  msg_uuid :: string
  msg_payload :: "nat list"
  msg_sleep :: rat
  msg_response :: "bool option"

text \<open>
  An entry of \<^verbatim>\<open>BLE_Session.devices\<close>. The keys \<^verbatim>\<open>client\<close> (always
  \<^verbatim>\<open>None\<close>) and \<^verbatim>\<open>cb\<close> (no caller in the repository passes a callback, so it
  is always \<^verbatim>\<open>_message_callback\<close> bound to the address) are left out. The key
  \<^verbatim>\<open>decode\<close> holds the bound method \<^verbatim>\<open>d.decode\<close> of a decoder object \<open>d\<close>, as
  every caller in the repository passes it: \<open>dev_decode\<close> is that object.
\<close>

record device =
  dev_uuid :: string
  dev_decode :: decoder
  dev_alias :: "string option"
  dev_lastseen :: lastseen
  dev_poll_msg :: "msg_spec option"
  dev_init_msg :: "msg_spec option"
  dev_stop_msg :: "msg_spec option"

type_synonym message = "int \<times> string \<times> triple option"

record session =
  devices :: "string \<rightharpoonup> device"
  messages :: "message list"
  dbus_lock :: bool
  running :: bool
  last_flush :: int
  live_report :: bool
  live_count :: "string \<rightharpoonup> nat"
  start_time :: "int option"
  last_messages :: "string \<rightharpoonup> message"
  recycle :: "string set"

text \<open>\<^verbatim>\<open>BLE_Session.__init__\<close>, created at time \<open>now\<close> with an empty queue.\<close>

definition new_session :: "int \<Rightarrow> session" where
  "new_session now =
     \<lparr>devices = Map.empty, messages = [], dbus_lock = False, running = True,
      last_flush = now, live_report = False, live_count = Map.empty,
      start_time = None, last_messages = Map.empty, recycle = {}\<rparr>"

text \<open>
  \<^verbatim>\<open>register_device\<close>. The parameter \<^verbatim>\<open>recycle\<close> is \<open>recycle_flag\<close> here; the
  source never reads it: line 775 tests \<^verbatim>\<open>self.recycle\<close>, the set.
\<close>

definition register_device ::
  "string \<Rightarrow> string \<Rightarrow> decoder \<Rightarrow> msg_spec option \<Rightarrow> msg_spec option \<Rightarrow>
   msg_spec option \<Rightarrow> string option \<Rightarrow> bool \<Rightarrow> session \<Rightarrow> session" where
  "register_device address notify_uuid decoder_obj poll init stop alias recycle_flag s =
     (let d = \<lparr>dev_uuid = notify_uuid, dev_decode = decoder_obj, dev_alias = alias,
                dev_lastseen = Never, dev_poll_msg = poll, dev_init_msg = init,
                dev_stop_msg = stop\<rparr>;
          s1 = s\<lparr>devices := (devices s)(address \<mapsto> d)\<rparr>
      in if recycle s1 \<noteq> {} then s1\<lparr>recycle := insert address (recycle s1)\<rparr> else s1)"

text \<open>
  \<^verbatim>\<open>message_flush\<close>, run to its end by the consumer at time \<open>now\<close> with no producer
  running in between. The result is the list of messages yielded, the exception
  that ends the generator (if any) and the session afterwards. Line 894 reads the
  global name \<^verbatim>\<open>last_messages\<close>, which the module never binds: reaching it raises
  \<^verbatim>\<open>NameError\<close>.
\<close>

fun remember :: "(string \<rightharpoonup> message) \<Rightarrow> message list \<Rightarrow> (string \<rightharpoonup> message)" where
  "remember lm [] = lm"
| "remember lm (m # ms) = remember (lm(fst (snd m) \<mapsto> m)) ms"

definition message_flush ::
  "bool \<Rightarrow> bool \<Rightarrow> int \<Rightarrow> session \<Rightarrow> message list \<times> pyerr option \<times> session" where
  "message_flush drop_flag clear_count now s =
     (let lm = remember (last_messages s) (messages s);
          s1 = s\<lparr>messages := [], last_messages := lm, last_flush := now,
                 live_count := (if clear_count then Map.empty else live_count s)\<rparr>
      in (if drop_flag then [] else messages s,
          if recycle s \<inter> dom lm = {} then None else Some NameError,
          s1))"

text \<open>
  \<^verbatim>\<open>reporting\<close>: the count of readings per \<^verbatim>\<open>'alias (units)'\<close>. The line it
  prints when \<^verbatim>\<open>live_report\<close> is set changes nothing in the session and is left
  out. \<^verbatim>\<open>'{}'.format(None)\<close> is \<^verbatim>\<open>'None'\<close>.
\<close>

definition reporting :: "string \<Rightarrow> string option \<Rightarrow> session \<Rightarrow> pyerr + session" where
  "reporting address units s =
     (case units of
        None \<Rightarrow> Inr s
      | Some u \<Rightarrow>
          (case devices s address of
             None \<Rightarrow> Inl KeyError
           | Some d \<Rightarrow>
               (let name = (case dev_alias d of None \<Rightarrow> ''None'' | Some a \<Rightarrow> a);
                    datum = name @ '' ('' @ u @ '')'';
                    n = (case live_count s datum of None \<Rightarrow> 0 | Some k \<Rightarrow> k)
                in Inr (s\<lparr>live_count := (live_count s)(datum \<mapsto> n + 1)\<rparr>))))"

text \<open>\<^verbatim>\<open>self.devices[address]['lastseen'] = x\<close>.\<close>

definition set_lastseen :: "string \<Rightarrow> lastseen \<Rightarrow> session \<Rightarrow> pyerr + session" where
  "set_lastseen address x s =
     (case devices s address of
        None \<Rightarrow> Inl KeyError
      | Some d \<Rightarrow> Inr (s\<lparr>devices := (devices s)(address \<mapsto> d\<lparr>dev_lastseen := x\<rparr>)\<rparr>))"

text \<open>
  The loop of \<^verbatim>\<open>_message_callback\<close> over the results. \<open>now i\<close> is what the
  \<open>i\<close>-th \<^verbatim>\<open>datetime.now\<close> of the call returns. An item that is \<^verbatim>\<open>None\<close> (from the
  bare tuple) is put into the queue and then \<^verbatim>\<open>r[2]\<close> raises \<^verbatim>\<open>TypeError\<close>.
\<close>

fun callback_loop ::
  "(nat \<Rightarrow> int) \<Rightarrow> nat \<Rightarrow> string \<Rightarrow> triple option list \<Rightarrow> session \<Rightarrow> pyerr option \<times> session" where
  "callback_loop now i address [] s = (None, s)"
| "callback_loop now i address (r # rs) s =
     (let s1 = s\<lparr>messages := messages s @ [(now i, address, r)]\<rparr>
      in case r of
           None \<Rightarrow> (Some TypeError, s1)
         | Some t \<Rightarrow>
             (case reporting address (snd (snd t)) s1 of
                Inl e \<Rightarrow> (Some e, s1)
              | Inr s2 \<Rightarrow>
                  (case set_lastseen address (Seen (now i)) s2 of
                     Inl e \<Rightarrow> (Some e, s2)
                   | Inr s3 \<Rightarrow> callback_loop now (i + 1) address rs s3)))"

text \<open>
  \<^verbatim>\<open>_message_callback\<close> for one notification: the lines printed, the exception
  that leaves the callback (if any) and the session afterwards. The decoder object
  of the device keeps what \<^verbatim>\<open>decode\<close> did to it, also when \<^verbatim>\<open>decode\<close> raises.
\<close>

definition message_callback ::
  "(pyval \<Rightarrow> bool) \<Rightarrow> (nat \<Rightarrow> int) \<Rightarrow> string \<Rightarrow> byte list \<Rightarrow> session
   \<Rightarrow> string list \<times> pyerr option \<times> session" where
  "message_callback is_overload now address data s =
     (case devices s address of
        None \<Rightarrow> ([], Some KeyError, s)
      | Some d \<Rightarrow>
          (let r = decode is_overload (dev_decode d) data;
               s0 = s\<lparr>devices := (devices s)(address \<mapsto> d\<lparr>dev_decode := snd r\<rparr>)\<rparr>
           in case snd (fst r) of
                Inl e \<Rightarrow> (fst (fst r), Some e, s0)
              | Inr results \<Rightarrow>
                  (fst (fst r),
                   fst (callback_loop now 0 address (iterate results) s0),
                   snd (callback_loop now 0 address (iterate results) s0))))"

text \<open>
  One pass of the liveness test in \<^verbatim>\<open>_connect_to_device\<close> (lines 811 to 813) at
  time \<open>now\<close>: more than two seconds after the last frame, \<^verbatim>\<open>lastseen\<close> is set to
  \<^verbatim>\<open>0\<close> and \<^verbatim>\<open>TimeoutError\<close> is raised.
\<close>

definition watchdog :: "int \<Rightarrow> string \<Rightarrow> session \<Rightarrow> pyerr option \<times> session" where
  "watchdog now address s =
     (case devices s address of
        None \<Rightarrow> (Some KeyError, s)
      | Some d \<Rightarrow>
          (case dev_lastseen d of
             Never \<Rightarrow> (None, s)
           | Seen t \<Rightarrow>
               if 2000000 < now - t
               then (Some TimeoutError,
                     s\<lparr>devices := (devices s)(address \<mapsto> d\<lparr>dev_lastseen := Never\<rparr>)\<rparr>)
               else (None, s)))"

text \<open>The \<^verbatim>\<open>lastseen\<close> of a registered device.\<close>

definition lastseen_of :: "session \<Rightarrow> string \<Rightarrow> lastseen option" where
  "lastseen_of s address = map_option dev_lastseen (devices s address)"

text \<open>
  A triple, or an item of the queue, whose number and unit are both present or both
  absent; an item that is \<^verbatim>\<open>None\<close> has neither.
\<close>

fun paired_triple :: "triple \<Rightarrow> bool" where
  "paired_triple (l, n, u) = ((n = None) = (u = None))"

fun paired_item :: "triple option \<Rightarrow> bool" where
  "paired_item None = True"
| "paired_item (Some t) = paired_triple t"

section \<open>Statistics\<close>

text \<open>\<^verbatim>\<open>units.split('(')[0].strip()\<close>.\<close>

definition before_paren :: "string \<Rightarrow> string" where
  "before_paren s = takeWhile (\<lambda>c. c \<noteq> CHR ''('') s"

definition unit_name :: "string \<Rightarrow> string" where
  "unit_name units = py_strip (before_paren units)"

text \<open>
  The numbers \<^verbatim>\<open>statistics\<close> finds in the messages are those the decoders return:
  an int, a float, \<^verbatim>\<open>float('inf')\<close> or, for some display texts, a \<^verbatim>\<open>str\<close>. An int
  or a finite float is taken as the real number it denotes (the rounding and the
  range of binary floating point are outside this model); \<^verbatim>\<open>float('inf')\<close> is
  \<open>Infinite\<close>. Python orders these numbers with \<^verbatim>\<open>inf\<close> above every finite one.
\<close>

datatype number = Finite real | Infinite

instantiation number :: linorder
begin

fun less_eq_number :: "number \<Rightarrow> number \<Rightarrow> bool" where
  "less_eq_number (Finite a) (Finite b) = (a \<le> b)"
| "less_eq_number a Infinite = True"
| "less_eq_number Infinite (Finite b) = False"

definition less_number :: "number \<Rightarrow> number \<Rightarrow> bool" where
  "less_number a b = (a \<le> b \<and> \<not> b \<le> a)"

instance
proof
  fix x y z :: number
  show "(x < y) = (x \<le> y \<and> \<not> y \<le> x)" by (simp add: less_number_def)
  show "x \<le> x" by (cases x) simp_all
  show "x \<le> y \<Longrightarrow> y \<le> z \<Longrightarrow> x \<le> z" by (cases x; cases y; cases z) simp_all
  show "x \<le> y \<Longrightarrow> y \<le> x \<Longrightarrow> x = y" by (cases x; cases y) simp_all
  show "x \<le> y \<or> y \<le> x" by (cases x; cases y) auto
qed

end

text \<open>The value at the second place of a reading: a number or a \<^verbatim>\<open>str\<close>.\<close>

datatype sample = Number number | Text string

text \<open>
  A message of the queue: time stamp, address and the data, which is a triple
  \<^verbatim>\<open>(lcd, n, units)\<close> or (after the bare tuple of HP90EPD) \<^verbatim>\<open>None\<close>. A reading
  with no number has \<open>None\<close> at the second place.
\<close>

type_synonym sample_message = "int \<times> string \<times> (lcd option \<times> sample option \<times> string option) option"

type_synonym columns = "((string \<times> string) \<times> (int \<times> sample option) list) list"

text \<open>\<^verbatim>\<open>columns[name].append(x)\<close> on a \<^verbatim>\<open>defaultdict(list)\<close>.\<close>

fun columns_append :: "string \<times> string \<Rightarrow> int \<times> sample option \<Rightarrow> columns \<Rightarrow> columns" where
  "columns_append name x [] = [(name, [x])]"
| "columns_append name x (c # cs) =
     (if fst c = name then (fst c, snd c @ [x]) # cs else c # columns_append name x cs)"

text \<open>
  The first loop of \<^verbatim>\<open>statistics\<close>. Unpacking \<^verbatim>\<open>None\<close> raises
  \<^verbatim>\<open>TypeError\<close>; \<^verbatim>\<open>None.split\<close> raises \<^verbatim>\<open>AttributeError\<close>.
\<close>

fun collect :: "sample_message list \<Rightarrow> columns \<Rightarrow> pyerr + columns" where
  "collect [] cols = Inr cols"
| "collect ((timestamp, address, data) # ms) cols =
     (case data of
        None \<Rightarrow> Inl TypeError
      | Some (l, n, units) \<Rightarrow>
          if l = None \<and> n = None \<and> units = None then collect ms cols
          else (case units of
                  None \<Rightarrow> Inl AttributeError
                | Some u \<Rightarrow> collect ms (columns_append (address, unit_name u) (timestamp, n) cols)))"

text \<open>
  The floats the arithmetic of \<^verbatim>\<open>statistics\<close> produces: a finite one (as a real),
  \<^verbatim>\<open>inf\<close>, \<^verbatim>\<open>-inf\<close> or \<^verbatim>\<open>nan\<close>. \<open>float_of\<close> is a number as an operand.
\<close>

datatype pyfloat = Flt real | PlusInf | MinusInf | NaN

fun float_of :: "number \<Rightarrow> pyfloat" where
  "float_of (Finite x) = Flt x"
| "float_of Infinite = PlusInf"

text \<open>
  \<^verbatim>\<open>a + b\<close>, \<^verbatim>\<open>a - b\<close>, \<^verbatim>\<open>a ** 2\<close>, \<^verbatim>\<open>a / k\<close> for a count \<open>k\<close> and \<^verbatim>\<open>math.sqrt(a)\<close>:
  \<^verbatim>\<open>nan\<close> gives \<^verbatim>\<open>nan\<close>, \<^verbatim>\<open>inf - inf\<close> is \<^verbatim>\<open>nan\<close>, and \<^verbatim>\<open>math.sqrt\<close> raises
  \<^verbatim>\<open>ValueError\<close> below zero.
\<close>

fun py_add :: "pyfloat \<Rightarrow> pyfloat \<Rightarrow> pyfloat" where
  "py_add (Flt a) (Flt b) = Flt (a + b)"
| "py_add NaN b = NaN"
| "py_add a NaN = NaN"
| "py_add PlusInf MinusInf = NaN"
| "py_add MinusInf PlusInf = NaN"
| "py_add PlusInf b = PlusInf"
| "py_add a PlusInf = PlusInf"
| "py_add MinusInf b = MinusInf"
| "py_add a MinusInf = MinusInf"

fun py_neg :: "pyfloat \<Rightarrow> pyfloat" where
  "py_neg (Flt a) = Flt (- a)"
| "py_neg PlusInf = MinusInf"
| "py_neg MinusInf = PlusInf"
| "py_neg NaN = NaN"

definition py_sub :: "pyfloat \<Rightarrow> pyfloat \<Rightarrow> pyfloat" where
  "py_sub a b = py_add a (py_neg b)"

fun py_square :: "pyfloat \<Rightarrow> pyfloat" where
  "py_square (Flt a) = Flt (a\<^sup>2)"
| "py_square PlusInf = PlusInf"
| "py_square MinusInf = PlusInf"
| "py_square NaN = NaN"

fun py_div :: "pyfloat \<Rightarrow> nat \<Rightarrow> pyerr + pyfloat" where
  "py_div a 0 = Inl ZeroDivisionError"
| "py_div (Flt a) (Suc k) = Inr (Flt (a / real (Suc k)))"
| "py_div a (Suc k) = Inr a"

fun py_sqrt :: "pyfloat \<Rightarrow> pyerr + pyfloat" where
  "py_sqrt (Flt a) = (if a < 0 then Inl ValueError else Inr (Flt (sqrt a)))"
| "py_sqrt PlusInf = Inr PlusInf"
| "py_sqrt MinusInf = Inl ValueError"
| "py_sqrt NaN = Inr NaN"

text \<open>\<^verbatim>\<open>sum(values)\<close>, which starts from \<^verbatim>\<open>0\<close>, and \<^verbatim>\<open>mean\<close>.\<close>

definition py_sum :: "pyfloat list \<Rightarrow> pyfloat" where
  "py_sum vs = foldl py_add (Flt 0) vs"

definition mean :: "pyfloat list \<Rightarrow> pyerr + pyfloat" where
  "mean vs = py_div (py_sum vs) (length vs)"

definition py_index :: "'a list \<Rightarrow> nat \<Rightarrow> pyerr + 'a" where
  "py_index xs i = (if i < length xs then Inr (xs ! i) else Inl IndexError)"

fun py_min :: "number list \<Rightarrow> pyerr + number" where
  "py_min [] = Inl ValueError"
| "py_min (v # vs) = Inr (fold min vs v)"

fun py_max :: "number list \<Rightarrow> pyerr + number" where
  "py_max [] = Inl ValueError"
| "py_max (v # vs) = Inr (fold max vs v)"

text \<open>
  \<^verbatim>\<open>int(round(k * 0.25))\<close> for a count \<open>k\<close>: the product is exact in binary floating
  point and \<^verbatim>\<open>round\<close> rounds a tie to the even neighbour. \<^verbatim>\<open>len * 0.75\<close> is exact as
  well (for \<open>3 * len < 2 ^ 53\<close>), so \<^verbatim>\<open>int(round(len * 0.75))\<close> is
  \<open>round_quarters (3 * len)\<close>.
\<close>

definition round_quarters :: "nat \<Rightarrow> nat" where
  "round_quarters k =
     (let q = k div 4; r = k mod 4
      in if r < 2 then q else if 2 < r then q + 1 else if even q then q else q + 1)"

record stats =
  st_timestamp :: int
  st_duration :: real
  st_address :: string
  st_unit :: string
  st_mean :: pyfloat
  st_samples :: nat
  st_deviation :: pyfloat
  st_minimum :: number
  st_quartile1 :: number
  st_median :: number
  st_quartile3 :: number
  st_maximum :: number

text \<open>The number at the second place of a column entry, if it is one.\<close>

fun number_of :: "sample option \<Rightarrow> number option" where
  "number_of (Some (Number n)) = Some n"
| "number_of (Some (Text s)) = None"
| "number_of None = None"

text \<open>
  The body of the second loop for one column: \<open>Inr None\<close> is \<^verbatim>\<open>continue\<close>. A
  column holding a value that is not a number (a \<^verbatim>\<open>str\<close> or \<^verbatim>\<open>None\<close>) ends in
  \<^verbatim>\<open>TypeError\<close>: \<^verbatim>\<open>sorted\<close> raises it when it compares such a value with a number or
  \<^verbatim>\<open>None\<close> with anything, and \<^verbatim>\<open>sum\<close> raises it when it adds such a value to
  \<^verbatim>\<open>0\<close>. The entries of the dict are computed in the order of the source; the last
  statement replaces the deviation by \<^verbatim>\<open>0\<close> when minimum and maximum are equal.
\<close>

definition stats_row ::
  "int \<Rightarrow> int \<Rightarrow> string \<times> string \<Rightarrow> (int \<times> sample option) list \<Rightarrow> pyerr + stats option" where
  "stats_row start_t stop_t name tv =
     (if list_ex (\<lambda>x. number_of (snd x) = None) tv then Inl TypeError
      else let vs = sort (map (\<lambda>x. the (number_of (snd x))) tv) in
        if length vs = 0 then Inr None
        else case mean (map float_of vs) of Inl e \<Rightarrow> Inl e | Inr m \<Rightarrow>
          (case mean (map (\<lambda>v. py_square (py_sub (float_of v) m)) vs) of
             Inl e \<Rightarrow> Inl e | Inr var \<Rightarrow>
          (case py_sqrt var of Inl e \<Rightarrow> Inl e | Inr dev \<Rightarrow>
          (case py_min vs of Inl e \<Rightarrow> Inl e | Inr lo \<Rightarrow>
          (case py_index vs (round_quarters (length vs)) of Inl e \<Rightarrow> Inl e | Inr q1 \<Rightarrow>
          (case py_index vs (length vs div 2) of Inl e \<Rightarrow> Inl e | Inr med \<Rightarrow>
          (case py_index vs (min (round_quarters (3 * length vs)) (length vs - 1)) of
             Inl e \<Rightarrow> Inl e | Inr q3 \<Rightarrow>
          (case py_max vs of Inl e \<Rightarrow> Inl e | Inr hi \<Rightarrow>
             Inr (Some \<lparr>st_timestamp = stop_t,
                        st_duration = real_of_int (stop_t - start_t) / 1000000,
                        st_address = fst name, st_unit = snd name,
                        st_mean = m, st_samples = length vs,
                        st_deviation = (if lo = hi then Flt 0 else dev),
                        st_minimum = lo, st_quartile1 = q1, st_median = med,
                        st_quartile3 = q3, st_maximum = hi\<rparr>)))))))))"

text \<open>
  The generator run to its end: the rows it yields, and the exception that ends it
  (if any).
\<close>

fun stats_rows :: "int \<Rightarrow> int \<Rightarrow> columns \<Rightarrow> stats list \<times> pyerr option" where
  "stats_rows start_t stop_t [] = ([], None)"
| "stats_rows start_t stop_t (c # cs) =
     (case stats_row start_t stop_t (fst c) (snd c) of
        Inl e \<Rightarrow> ([], Some e)
      | Inr None \<Rightarrow> stats_rows start_t stop_t cs
      | Inr (Some r) \<Rightarrow>
          (r # fst (stats_rows start_t stop_t cs), snd (stats_rows start_t stop_t cs)))"

definition statistics :: "sample_message list \<Rightarrow> int \<Rightarrow> int \<Rightarrow> stats list \<times> pyerr option" where
  "statistics msgs start_t stop_t =
     (case collect msgs [] of
        Inl e \<Rightarrow> ([], Some e)
      | Inr cols \<Rightarrow> if cols = [] then ([], None) else stats_rows start_t stop_t cols)"

text \<open>
  Following the spec's words: the absent triple; and the samples of one (address,
  unit) within a batch, in arrival order.
\<close>

definition is_absent :: "sample_message \<Rightarrow> bool" where
  "is_absent m = (snd (snd m) = Some (None, None, None))"







section \<open>Conditions on frames and calls\<close>

text \<open>The same for what \<^verbatim>\<open>decode\<close> gives: an exception hands out no reading.\<close>

definition paired_result :: "pyerr + decoded \<Rightarrow> bool" where
  "paired_result x = (case x of Inl e \<Rightarrow> True | Inr r \<Rightarrow> list_all paired_item (iterate r))"

text \<open>
  The branches of the \<^verbatim>\<open>decode\<close> methods that return the absent triple for a
  frame of the wrong shape: \<open>mismatch\<close> is their condition. HP90EPD has no such
  branch (its first packet is buffered, its last \<^verbatim>\<open>else\<close> returns the bare tuple)
  and the dummy decoder tests nothing. \<open>silent\<close> holds where the branch prints
  nothing.
\<close>

definition mismatch :: "model \<Rightarrow> byte list \<Rightarrow> bool" where
  "mismatch m data =
     (case m of
        TS04 \<Rightarrow> data = send_data \<or> length data \<noteq> 9
      | HP90EPD \<Rightarrow> False
      | AN9002 \<Rightarrow> length data \<noteq> 11
      | V05B \<Rightarrow> length data \<noteq> 10
      | WT81B \<Rightarrow> \<not> match data pattern_WT81B \<or> 3 < data ! 3
      | UT383BT \<Rightarrow> \<not> match data pattern_UT383BT
      | TP357 \<Rightarrow> \<not> match data pattern_TP357 \<or> 1 < data ! 2
      | TS02 \<Rightarrow> check_TS02 data = Inr False
      | K1705 \<Rightarrow> length data = 128 \<or> \<not> match data pattern_K1705
      | BT980D \<Rightarrow> match data pattern_BT980D_idle \<or> \<not> match data pattern_BT980D
      | BT7200_APP \<Rightarrow> \<not> match2 (recover data) ''1.2.3.4.5.6.7.8.9.A.B.C.D.E.F.''
      | BT985C_APP \<Rightarrow> \<not> match2 data ''BC 0. .. .. .. .. .. ..''
      | Dummy \<Rightarrow> False)"

definition silent :: "model \<Rightarrow> byte list \<Rightarrow> bool" where
  "silent m data =
     (m = TS04 \<or> m = AN9002 \<or> m = V05B \<or> (m = K1705 \<and> length data = 128)
      \<or> (m = BT980D \<and> match data pattern_BT980D_idle))"

text \<open>
  Some digit of the frame merges to a bit pattern that \<^verbatim>\<open>self.segments\<close> does not
  hold: \<^verbatim>\<open>merge_digit\<close> raises \<^verbatim>\<open>KeyError\<close> on one of the index pairs.
\<close>

definition misses ::
  "(byte \<Rightarrow> byte \<Rightarrow> pyerr + char) \<Rightarrow> (nat \<times> nat) list \<Rightarrow> byte list \<Rightarrow> bool" where
  "misses merge_digit pairs data =
     list_ex (\<lambda>p. merge_digit (data ! fst p) (data ! snd p) = Inl KeyError) pairs"




section \<open>The device tasks\<close>

text \<open>
  The tasks of \<^verbatim>\<open>_run\<close>, one per registered address, each running
  \<^verbatim>\<open>_connect_to_device\<close>. A task is suspended at an \<^verbatim>\<open>await\<close>; its phase says at
  which one.

  \<^item> \<open>Acquiring\<close>: at \<^verbatim>\<open>await self._dbus_lock.acquire()\<close>.
  \<^item> \<open>Connecting\<close>: in \<^verbatim>\<open>async with BleakClient(...)\<close> or in \<^verbatim>\<open>start_notify\<close>.
  \<^item> \<open>Settling\<close>: in the \<^verbatim>\<open>asyncio.sleep(0.5)\<close> before the gate is released.
  \<^item> \<open>Polling\<close>: in \<^verbatim>\<open>_poll_device\<close> (a device with a \<^verbatim>\<open>poll_msg\<close>).
  \<^item> \<open>Watching\<close>: in the loop with the liveness test.
  \<^item> \<open>Backoff\<close>: in the \<^verbatim>\<open>asyncio.sleep(2)\<close> of an exception handler.
  \<^item> \<open>Returned\<close>: the coroutine has ended.
\<close>

datatype phase = Acquiring | Connecting | Settling | Polling | Watching | Backoff | Returned

record net =
  session_of :: session
  phase_of :: "string \<rightharpoonup> phase"

text \<open>\<^verbatim>\<open>_run\<close>: a task for every registered address.\<close>

definition start :: "session \<Rightarrow> net" where
  "start s = \<lparr>session_of = s, phase_of = (\<lambda>a. map_option (\<lambda>d. Acquiring) (devices s a))\<rparr>"

text \<open>
  What can happen next: the event that resumes a task, a notification, or
  \<^verbatim>\<open>close()\<close> from the main thread.

  \<^item> \<open>Acquire a\<close>: \<^verbatim>\<open>acquire()\<close> returns in the task of \<open>a\<close>.
  \<^item> \<open>Connected a\<close>: the client is connected and \<^verbatim>\<open>start_notify\<close> has returned.
  \<^item> \<open>Settled a\<close>: the half second is over; the task releases the gate and goes on
    (the write of an \<^verbatim>\<open>init_msg\<close> is part of this step).
  \<^item> \<open>Fails a e\<close>: the call the task awaits raises \<open>e\<close>.
  \<^item> \<open>Notification a data t\<close>: the callback of \<open>a\<close> is called with \<open>data\<close> at
    time \<open>t\<close> (the time stamps taken during one call are taken to be equal).
  \<^item> \<open>Pass a now\<close>: one pass of the loop with the liveness test, at time \<open>now\<close>.
  \<^item> \<open>Leave a\<close>: the task finds the run signal cleared, stops the notifications
    and returns.
  \<^item> \<open>BackoffOver a\<close>: the two seconds are over; the handler calls
    \<^verbatim>\<open>_connect_to_device\<close> again.
  \<^item> \<open>Close\<close>: \<^verbatim>\<open>close()\<close> clears the run signal.
\<close>

datatype event =
    Acquire string
  | Connected string
  | Settled string
  | Fails string pyerr
  | Notification string "byte list" int
  | Pass string int
  | Leave string
  | BackoffOver string
  | Close

text \<open>
  The handlers of \<^verbatim>\<open>_connect_to_device\<close>. For \<^verbatim>\<open>BleakError\<close> and
  \<^verbatim>\<open>TimeoutError\<close>: \<^verbatim>\<open>if self._dbus_lock.locked(): self._dbus_lock.release()\<close>,
  then the sleep. An \<^verbatim>\<open>asyncio.Lock\<close> does not know which task acquired it:
  \<^verbatim>\<open>locked()\<close> is true and \<^verbatim>\<open>release()\<close> succeeds whoever holds it. For any other
  exception: \<^verbatim>\<open>_messy_cleanup\<close>, which releases the gate in the same way and clears the
  run signal.
\<close>

definition handler :: "string \<Rightarrow> pyerr \<Rightarrow> net \<Rightarrow> net" where
  "handler a e n =
     (if e = BleakError \<or> e = TimeoutError
      then n\<lparr>session_of := (session_of n)\<lparr>dbus_lock := False\<rparr>,
             phase_of := (phase_of n)(a \<mapsto> Backoff)\<rparr>
      else n\<lparr>session_of := (session_of n)\<lparr>dbus_lock := False, running := False\<rparr>,
             phase_of := (phase_of n)(a \<mapsto> Returned)\<rparr>)"

text \<open>
  One event; \<open>None\<close> when it cannot happen in this state. \<^verbatim>\<open>acquire()\<close> returns
  only when the gate is free (the order among several waiting tasks is not
  modelled); the task then tests the run signal without being suspended.
  \<^verbatim>\<open>release()\<close> of a gate that is not locked raises \<^verbatim>\<open>RuntimeError\<close>. An exception
  that leaves the callback of a notification does not reach the task.
\<close>

definition step :: "(pyval \<Rightarrow> bool) \<Rightarrow> event \<Rightarrow> net \<Rightarrow> net option" where
  "step is_overload ev n =
     (let s = session_of n in
      case ev of
        Acquire a \<Rightarrow>
          if phase_of n a = Some Acquiring \<and> \<not> dbus_lock s
          then Some (if running s
                     then n\<lparr>session_of := s\<lparr>dbus_lock := True\<rparr>,
                            phase_of := (phase_of n)(a \<mapsto> Connecting)\<rparr>
                     else n\<lparr>phase_of := (phase_of n)(a \<mapsto> Returned)\<rparr>)
          else None
      | Connected a \<Rightarrow>
          if phase_of n a = Some Connecting
          then Some (n\<lparr>phase_of := (phase_of n)(a \<mapsto> Settling)\<rparr>)
          else None
      | Settled a \<Rightarrow>
          (case devices s a of
             None \<Rightarrow> None
           | Some d \<Rightarrow>
               if phase_of n a \<noteq> Some Settling then None
               else if \<not> dbus_lock s then Some (handler a RuntimeError n)
               else Some (n\<lparr>session_of := s\<lparr>dbus_lock := False\<rparr>,
                           phase_of := (phase_of n)
                             (a \<mapsto> (if dev_poll_msg d = None then Watching else Polling))\<rparr>))
      | Fails a e \<Rightarrow>
          if phase_of n a \<in> {Some Connecting, Some Settling, Some Polling, Some Watching}
          then Some (handler a e n)
          else None
      | Notification a data t \<Rightarrow>
          if phase_of n a \<in> {Some Settling, Some Polling, Some Watching}
          then Some (n\<lparr>session_of :=
                        snd (snd (message_callback is_overload (\<lambda>i. t) a data s))\<rparr>)
          else None
      | Pass a now \<Rightarrow>
          if phase_of n a = Some Watching \<and> running s
          then (case fst (watchdog now a s) of
                  None \<Rightarrow> Some (n\<lparr>session_of := snd (watchdog now a s)\<rparr>)
                | Some e \<Rightarrow> Some (handler a e (n\<lparr>session_of := snd (watchdog now a s)\<rparr>)))
          else None
      | Leave a \<Rightarrow>
          if phase_of n a \<in> {Some Polling, Some Watching} \<and> \<not> running s
          then Some (n\<lparr>phase_of := (phase_of n)(a \<mapsto> Returned)\<rparr>)
          else None
      | BackoffOver a \<Rightarrow>
          if phase_of n a = Some Backoff
          then Some (n\<lparr>phase_of := (phase_of n)(a \<mapsto> Acquiring)\<rparr>)
          else None
      | Close \<Rightarrow> Some (n\<lparr>session_of := s\<lparr>running := False\<rparr>\<rparr>))"

text \<open>A schedule: the events one after the other.\<close>

fun run :: "(pyval \<Rightarrow> bool) \<Rightarrow> event list \<Rightarrow> net \<Rightarrow> net option" where
  "run is_overload [] n = Some n"
| "run is_overload (ev # evs) n =
     (case step is_overload ev n of None \<Rightarrow> None | Some n1 \<Rightarrow> run is_overload evs n1)"

text \<open>
  The tasks between the acquisition of the gate and its release after the
  subscription: the section the gate is there to serialise.
\<close>

definition in_section :: "net \<Rightarrow> string \<Rightarrow> bool" where
  "in_section n a = (phase_of n a = Some Connecting \<or> phase_of n a = Some Settling)"

text \<open>
  What a schedule leads to, as seen from two addresses: their phases, the gate and
  the run signal.
\<close>

definition outcome_of ::
  "net option \<Rightarrow> string \<Rightarrow> string \<Rightarrow> (phase option \<times> phase option \<times> bool \<times> bool) option" where
  "outcome_of r a b =
     map_option (\<lambda>n. (phase_of n a, phase_of n b, dbus_lock (session_of n),
                       running (session_of n))) r"



section \<open>Recycling (C6)\<close>

text \<open>
  C6. Registering a device with the recycle flag set should mark its address for
  recycling, and a flush should put the last reading of every marked address back
  into the queue. In the code a fresh session that registers a device with
  \<^verbatim>\<open>recycle=True\<close> marks nothing, so the flush after a reading of that device
  leaves the queue empty; and with an address in the recycle set that has a last
  message, the flush ends in \<^verbatim>\<open>NameError\<close> with nothing put back.
\<close>

theorem recycle_never_marked:
  "recycle (register_device ''AA'' ''ffb2'' \<lparr>model = TS04, buffer = []\<rparr> None None None None True (new_session 0)) = {}
   \<and> message_flush False True 9
        ((register_device ''AA'' ''ffb2'' \<lparr>model = TS04, buffer = []\<rparr> None None None None True (new_session 0))
           \<lparr>messages := [(5, ''AA'', Some (Some [], Some (PInt 1), Some ''volts''))]\<rparr>)
       = ([(5, ''AA'', Some (Some [], Some (PInt 1), Some ''volts''))], None,
          (register_device ''AA'' ''ffb2'' \<lparr>model = TS04, buffer = []\<rparr> None None None None True (new_session 0))
           \<lparr>last_messages := [''AA'' \<mapsto> (5, ''AA'', Some (Some [], Some (PInt 1), Some ''volts''))],
            last_flush := 9\<rparr>)
   \<and> fst (snd (message_flush False True 9
        ((new_session 0)
           \<lparr>recycle := {''AA''},
            messages := [(5, ''AA'', Some (Some [], Some (PInt 1), Some ''volts''))]\<rparr>)))
       = Some NameError"
  by (simp add: register_device_def new_session_def message_flush_def Let_def)

section \<open>Statistics of a batch (C9, C10)\<close>

lemma is_absent_triple: "is_absent (t, a, d) = (d = Some (None, None, None))"
  by (simp add: is_absent_def)

lemma collect_skips_absent:
  "collect (filter (\<lambda>m. \<not> is_absent m) msgs) cols = collect msgs cols"
proof (induction msgs arbitrary: cols)
  case Nil
  show ?case by simp
next
  case (Cons m ms)
  obtain t a d where m: "m = (t, a, d)" by (cases m)
  show ?case
  proof (cases "is_absent m")
    case True
    then show ?thesis by (simp add: m is_absent_triple Cons.IH)
  next
    case False
    then show ?thesis
      by (cases d) (simp_all add: m is_absent_triple Cons.IH split: option.splits prod.splits)
  qed
qed

lemma collect_all_absent: "list_all is_absent msgs \<Longrightarrow> collect msgs cols = Inr cols"
proof (induction msgs)
  case Nil
  show ?case by simp
next
  case (Cons m ms)
  obtain t a d where m: "m = (t, a, d)" by (cases m)
  from Cons show ?case by (simp add: m is_absent_triple)
qed

text \<open>
  C10. Records whose data is the absent triple are skipped: the columns and the rows
  of a batch are those of the batch without them, and a batch of absent records only
  has no column and no row.
\<close>

theorem absent_records_skipped:
  "collect msgs cols = collect (filter (\<lambda>m. \<not> is_absent m) msgs) cols
   \<and> statistics msgs start_t stop_t
       = statistics (filter (\<lambda>m. \<not> is_absent m) msgs) start_t stop_t
   \<and> (list_all is_absent msgs \<longrightarrow>
        collect msgs [] = Inr [] \<and> statistics msgs start_t stop_t = ([], None))"
  by (simp add: collect_skips_absent collect_all_absent statistics_def)

theorem absent_records_skipped_witness:
  "list_all is_absent [(1, ''A'', Some (None, None, None)), (2, ''B'', Some (None, None, None))]
   \<and> statistics [(1, ''A'', Some (None, None, None)), (2, ''B'', Some (None, None, None))] 0 5
       = ([], None)
   \<and> statistics [(1, ''A'', Some (None, None, None)),
                  (2, ''B'', Some (Some [], Some (Number (Finite 7)), Some ''lux''))] 0 5
       = statistics [(2, ''B'', Some (Some [], Some (Number (Finite 7)), Some ''lux''))] 0 5"
  using absent_records_skipped
    [of "[(1, ''A'', Some (None, None, None)), (2, ''B'', Some (None, None, None))]" "[]" 0 5]
    absent_records_skipped
    [of "[(1, ''A'', Some (None, None, None)),
          (2, ''B'', Some (Some [], Some (Number (Finite 7)), Some ''lux''))]" "[]" 0 5]
  by (simp add: is_absent_def statistics_def)










































section \<open>Readings carry number and unit together (C3)\<close>

lemma paired_result_simps [simp]:
  "paired_result (Inl e)"
  "paired_result (Inr absent)"
  "paired_result (Inr ResultTuple)"
  "paired_result (reading strs l)"
  "paired_result (Inr (ResultList [(a, Some n, Some u)]))"
  "paired_result (Inr (ResultList [(a, Some n, Some u), (b, Some n', Some u')]))"
  by (simp_all add: paired_result_def absent_def reading_def split: sum.splits)

lemma paired_unrecognized [simp]: "paired_result (snd (unrecognized name data))"
  by (simp add: unrecognized_def)

lemma paired_TS04: "paired_result (snd (decode_TS04 data))"
  by (simp add: decode_TS04_def split: sum.splits)

lemma paired_HP90EPD: "paired_result (snd (fst (decode_HP90EPD buf data)))"
  by (simp add: decode_HP90EPD_def Let_def split: sum.splits)

lemma paired_AN9002: "paired_result (snd (decode_AN9002 data))"
  by (simp add: decode_AN9002_def split: sum.splits)

lemma paired_V05B: "paired_result (snd (decode_V05B data))"
  by (simp add: decode_V05B_def split: sum.splits)

lemma paired_WT81B: "paired_result (snd (decode_WT81B ol data))"
  by (simp add: decode_WT81B_def split: sum.splits prod.splits)

lemma paired_UT383BT: "paired_result (snd (decode_UT383BT data))"
  by (simp add: decode_UT383BT_def split: sum.splits)

lemma paired_TP357: "paired_result (snd (decode_TP357 data))"
  by (simp add: decode_TP357_def split: sum.splits prod.splits)

lemma paired_TS02: "paired_result (snd (decode_TS02 data))"
  by (simp add: decode_TS02_def split: sum.splits)

lemma paired_K1705: "paired_result (snd (decode_K1705 data))"
  by (simp add: decode_K1705_def split: sum.splits)

lemma paired_BT980D: "paired_result (snd (decode_BT980D data))"
  by (simp add: decode_BT980D_def split: sum.splits)

lemma paired_BT7200_APP: "paired_result (snd (decode_BT7200_APP data))"
  by (simp add: decode_BT7200_APP_def Let_def split: sum.splits)

lemma paired_BT985C_APP: "paired_result (snd (decode_BT985C_APP data))"
  by (simp add: decode_BT985C_APP_def split: sum.splits prod.splits)

lemma paired_Dummy: "paired_result (snd (decode_Dummy data))"
  by (simp add: decode_Dummy_def Let_def split: sum.splits)

lemma paired_decode: "paired_result (snd (fst (decode ol dec data)))"
  by (cases "model dec")
    (simp_all add: decode_def paired_TS04 paired_HP90EPD paired_AN9002 paired_V05B paired_WT81B
      paired_UT383BT paired_TP357 paired_TS02 paired_K1705 paired_BT980D paired_BT7200_APP
      paired_BT985C_APP paired_Dummy)

lemma callback_loop_messages:
  "list_all paired_item rs \<Longrightarrow>
   \<exists>new. messages (snd (callback_loop now i address rs s)) = messages s @ new
     \<and> list_all (\<lambda>m. paired_item (snd (snd m))) new"
proof (induction rs arbitrary: i s)
  case Nil
  show ?case by simp
next
  case (Cons r rs)
  let ?s1 = "s\<lparr>messages := messages s @ [(now i, address, r)]\<rparr>"
  have r: "paired_item r" and rs: "list_all paired_item rs" using Cons.prems by simp_all
  show ?case
  proof (cases r)
    case None
    then show ?thesis by simp
  next
    case (Some t)
    show ?thesis
    proof (cases "reporting address (snd (snd t)) ?s1")
      case (Inl e)
      then show ?thesis using r Some by simp
    next
      case (Inr s2)
      have m2: "messages s2 = messages ?s1"
        using Inr by (auto simp: reporting_def Let_def split: option.splits)
      show ?thesis
      proof (cases "set_lastseen address (Seen (now i)) s2")
        case (Inl e)
        then show ?thesis using r Some Inr m2 by simp
      next
        case (Inr s3)
        have m3: "messages s3 = messages s2"
          using Inr by (auto simp: set_lastseen_def split: option.splits)
        from Cons.IH [OF rs, of "i + 1" s3] obtain new where
          "messages (snd (callback_loop now (i + 1) address rs s3)) = messages s3 @ new"
          "list_all (\<lambda>m. paired_item (snd (snd m))) new" by blast
        then show ?thesis using r Some \<open>reporting address (snd (snd t)) ?s1 = Inr s2\<close> Inr m2 m3
          by simp
      qed
    qed
  qed
qed

text \<open>
  C3. In every triple a decoder returns, the number and the unit are both present or
  both absent; and every record \<^verbatim>\<open>_message_callback\<close> puts into the queue carries
  such a triple, or (from the bare tuple of HP90EPD) no triple at all: never a number
  without a unit or a unit without a number.
\<close>

theorem value_and_unit_paired:
  "paired_result (snd (fst (decode is_overload dec data)))
   \<and> (\<exists>new. messages (snd (snd (message_callback is_overload now address data s)))
              = messages s @ new
           \<and> list_all (\<lambda>m. paired_item (snd (snd m))) new)"
proof
  show "paired_result (snd (fst (decode is_overload dec data)))" by (rule paired_decode)
next
  show "\<exists>new. messages (snd (snd (message_callback is_overload now address data s)))
              = messages s @ new
           \<and> list_all (\<lambda>m. paired_item (snd (snd m))) new"
  proof (cases "devices s address")
    case None
    then show ?thesis by (simp add: message_callback_def)
  next
    case (Some d)
    let ?r = "decode is_overload (dev_decode d) data"
    let ?s0 = "s\<lparr>devices := (devices s)(address \<mapsto> d\<lparr>dev_decode := snd ?r\<rparr>)\<rparr>"
    show ?thesis
    proof (cases "snd (fst ?r)")
      case (Inl e)
      then show ?thesis using Some by (simp add: message_callback_def Let_def)
    next
      case (Inr results)
      have "list_all paired_item (iterate results)"
        using paired_decode [of is_overload "dev_decode d" data] Inr
        by (simp add: paired_result_def)
      from callback_loop_messages [OF this, of now 0 address ?s0]
      show ?thesis using Some Inr by (simp add: message_callback_def Let_def)
    qed
  qed
qed

section \<open>Frames of the wrong shape (C1)\<close>

lemma match_length: "match data pattern \<Longrightarrow> length data = length pattern"
  by (simp add: match_def split: if_splits)

text \<open>
  C1 as stated fails: TS04 answers a frame of the wrong length with the absent triple
  and prints nothing.
\<close>

theorem mismatch_without_diagnostic:
  "length [1, 2, 3 :: byte] \<noteq> 9
   \<and> decode_TS04 [1, 2, 3] = ([], Inr (ResultList [(None, None, None)]))"
  by (simp add: decode_TS04_def absent_def send_data_def)

text \<open>
  C1, amended. For every model and every frame that takes a mismatch branch, decode
  returns one absent triple, raises nothing and leaves the decoder object as it was.
  TS04, AN9002 and V05B print nothing, nor does K1705 for a frame of 128 bytes or
  BT980D for its idle frame; every other mismatch prints one line with the model's
  name and the bytes in hex (BT7200_APP prints the repaired frame).
\<close>

theorem mismatch_gives_absent:
  assumes "mismatch (model dec) data"
  shows "decode is_overload dec data =
           ((if silent (model dec) data then []
             else [''WARNING: unrecognized '' @ model_name (model dec) @ '' data ''
                   @ py_join '' '' (map hex_byte
                       (if model dec = BT7200_APP then recover data else data))],
             Inr (ResultList [(None, None, None)])), dec)"
proof (cases "model dec")
  case TS04
  then show ?thesis using assms
    by (auto simp: decode_def mismatch_def silent_def decode_TS04_def absent_def)
next
  case HP90EPD
  then show ?thesis using assms by (simp add: mismatch_def)
next
  case AN9002
  then show ?thesis using assms
    by (simp add: decode_def mismatch_def silent_def decode_AN9002_def absent_def)
next
  case V05B
  then show ?thesis using assms
    by (simp add: decode_def mismatch_def silent_def decode_V05B_def absent_def)
next
  case WT81B
  show ?thesis
  proof (cases "match data pattern_WT81B")
    case True
    then have "length data = 8" by (simp add: match_length pattern_WT81B_def)
    then show ?thesis using WT81B True assms
      by (simp add: decode_def mismatch_def silent_def decode_WT81B_def unrecognized_def
          absent_def item_at_def)
  next
    case False
    then show ?thesis using WT81B
      by (simp add: decode_def silent_def decode_WT81B_def unrecognized_def absent_def)
  qed
next
  case UT383BT
  then show ?thesis using assms
    by (simp add: decode_def mismatch_def silent_def decode_UT383BT_def unrecognized_def
        absent_def)
next
  case TP357
  show ?thesis
  proof (cases "match data pattern_TP357")
    case True
    then have "length data = 7" by (simp add: match_length pattern_TP357_def)
    then show ?thesis using TP357 True assms
      by (simp add: decode_def mismatch_def silent_def decode_TP357_def unrecognized_def
          absent_def item_at_def)
  next
    case False
    then show ?thesis using TP357
      by (simp add: decode_def silent_def decode_TP357_def unrecognized_def absent_def)
  qed
next
  case TS02
  then show ?thesis using assms
    by (simp add: decode_def mismatch_def silent_def decode_TS02_def unrecognized_def
        absent_def)
next
  case K1705
  then show ?thesis using assms
    by (auto simp: decode_def mismatch_def silent_def decode_K1705_def unrecognized_def
        absent_def)
next
  case BT980D
  then show ?thesis using assms
    by (auto simp: decode_def mismatch_def silent_def decode_BT980D_def unrecognized_def
        absent_def)
next
  case BT7200_APP
  then show ?thesis using assms
    by (simp add: decode_def mismatch_def silent_def decode_BT7200_APP_def unrecognized_def
        absent_def Let_def)
next
  case BT985C_APP
  then show ?thesis using assms
    by (simp add: decode_def mismatch_def silent_def decode_BT985C_APP_def unrecognized_def
        absent_def)
next
  case Dummy
  then show ?thesis using assms by (simp add: mismatch_def)
qed

theorem mismatch_gives_absent_witness:
  "mismatch UT383BT [1, 2, 3]
   \<and> decode (\<lambda>v. False) \<lparr>model = UT383BT, buffer = []\<rparr> [1, 2, 3]
       = (([''WARNING: unrecognized UT383BT data 0x01 0x02 0x03''],
           Inr (ResultList [(None, None, None)])), \<lparr>model = UT383BT, buffer = []\<rparr>)
   \<and> mismatch TS02 [0x29, 0x31, 0x32, 0x33, 0x44, 0x30]
   \<and> fst (fst (decode (\<lambda>v. False) \<lparr>model = TS02, buffer = []\<rparr>
                 [0x29, 0x31, 0x32, 0x33, 0x44, 0x30]))
       = [''WARNING: unrecognized TS02 data 0x29 0x31 0x32 0x33 0x44 0x30'']"
proof -
  have m1: "mismatch (model \<lparr>model = UT383BT, buffer = []\<rparr>) [1, 2, 3]"
    by (simp add: mismatch_def match_def pattern_UT383BT_def)
  have m2: "mismatch (model \<lparr>model = TS02, buffer = []\<rparr>) [0x29, 0x31, 0x32, 0x33, 0x44, 0x30]"
    by (simp add: mismatch_def check_TS02_def item_at_def)
  have b0: "hex_byte 1 = ''0x01''" by code_simp
  have b1: "hex_byte 2 = ''0x02''" by code_simp
  have b2: "hex_byte 3 = ''0x03''" by code_simp
  have b3: "hex_byte 41 = ''0x29''" by code_simp
  have b4: "hex_byte 49 = ''0x31''" by code_simp
  have b5: "hex_byte 50 = ''0x32''" by code_simp
  have b6: "hex_byte 51 = ''0x33''" by code_simp
  have b7: "hex_byte 68 = ''0x44''" by code_simp
  have b8: "hex_byte 48 = ''0x30''" by code_simp
  show ?thesis
    using m1 m2 mismatch_gives_absent [OF m1, of "\<lambda>v. False"]
      mismatch_gives_absent [OF m2, of "\<lambda>v. False"]
    by (simp add: silent_def b0 b1 b2 b3 b4 b5 b6 b7 b8)
qed

section \<open>A digit pattern missing from the segment table (C2)\<close>

lemma set_flags_in_range:
  "list_all (\<lambda>f. fst (snd f) < length data) fs \<Longrightarrow> \<exists>l'. set_flags fs data l = Inr l'"
proof (induction fs arbitrary: l)
  case Nil
  show ?case by simp
next
  case (Cons f fs)
  obtain name i b where f: "f = (name, i, b)" by (cases f)
  from Cons.prems have "i < length data" and "list_all (\<lambda>f. fst (snd f) < length data) fs"
    by (simp_all add: f)
  then show ?case using Cons.IH by (simp add: f item_at_def)
qed

lemma merge_digits_miss:
  assumes "list_all (\<lambda>p. fst p < length data \<and> snd p < length data) ps"
    and "\<forall>b1 b2 e. md b1 b2 = Inl e \<longrightarrow> e = KeyError"
    and "misses md ps data"
  shows "merge_digits md ps data = Inl KeyError"
  using assms(1, 3)
proof (induction ps)
  case Nil
  then show ?case by (simp add: misses_def)
next
  case (Cons p ps)
  obtain i j where p: "p = (i, j)" by (cases p)
  from Cons.prems(1) have ij: "i < length data" "j < length data"
    and rest: "list_all (\<lambda>p. fst p < length data \<and> snd p < length data) ps"
    by (simp_all add: p)
  show ?case
  proof (cases "md (data ! i) (data ! j)")
    case (Inl e)
    then have "e = KeyError" using assms(2) by blast
    then show ?thesis using Inl ij by (simp add: p item_at_def)
  next
    case (Inr c)
    then have "misses md ps data" using Cons.prems(2) by (simp add: misses_def p)
    from Cons.IH [OF rest this] show ?thesis using Inr ij by (simp add: p item_at_def)
  qed
qed

lemma segment_error: "segment segs x = Inl e \<Longrightarrow> e = KeyError"
  by (simp add: segment_def dict_get_def split: option.splits)

lemma decode_lcd_miss:
  assumes "list_all (\<lambda>f. fst (snd f) < length data) flags"
    and "list_all (\<lambda>p. fst p < length data \<and> snd p < length data) ps"
    and "\<forall>b1 b2 e. md b1 b2 = Inl e \<longrightarrow> e = KeyError"
    and "misses md ps data"
  shows "decode_lcd flags (segment_digits md ps) ms data = Inl KeyError"
proof -
  from set_flags_in_range [OF assms(1)] obtain l where "set_flags flags data [] = Inr l"
    by blast
  moreover have "segment_digits md ps data = Inl KeyError"
    by (simp add: segment_digits_def merge_digits_miss [OF assms(2) assms(3) assms(4)])
  ultimately show ?thesis by (simp add: decode_lcd_def)
qed

lemma flip_same_length:
  "length data = length key \<Longrightarrow> flip key data = Inr (map2 (XOR) data key)"
proof (induction key arbitrary: data)
  case Nil
  then show ?case by simp
next
  case (Cons x xs)
  then show ?case by (cases data) simp_all
qed

lemma miss_TS04:
  assumes "length data = 9" and "data \<noteq> send_data" and "misses merge_digit_TS04 pairs_TS04 data"
  shows "decode_TS04 data = ([], Inl KeyError)"
proof -
  have fl: "list_all (\<lambda>f. fst (snd f) < length (data)) flags_TS04"
    by (simp add: assms flags_TS04_def)
  have pr: "list_all (\<lambda>p. fst p < length (data) \<and> snd p < length (data)) pairs_TS04"
    by (simp add: assms pairs_TS04_def)
  have er: "\<forall>b1 b2 e. merge_digit_TS04 b1 b2 = Inl e \<longrightarrow> e = KeyError"
    by (auto simp: merge_digit_TS04_def dest: segment_error)
  have lcd: "decode_lcd flags_TS04 (segment_digits merge_digit_TS04 pairs_TS04) [] (data) = Inl KeyError"
    by (rule decode_lcd_miss [OF fl pr er]) (rule assms)
  show ?thesis using assms lcd by (simp add: decode_TS04_def decode_digits_TS04_def)
qed

lemma miss_HP90EPD:
  assumes "length data = 6" and "length buf = 8"
    and "misses merge_digit_HP90EPD pairs_HP90EPD (buf @ data)"
  shows "decode_HP90EPD buf data = (([], Inl KeyError), buf)"
proof -
  have fl: "list_all (\<lambda>f. fst (snd f) < length (buf @ data)) flags_HP90EPD"
    by (simp add: assms flags_HP90EPD_def)
  have pr: "list_all (\<lambda>p. fst p < length (buf @ data) \<and> snd p < length (buf @ data)) pairs_HP90EPD"
    by (simp add: assms pairs_HP90EPD_def)
  have er: "\<forall>b1 b2 e. merge_digit_HP90EPD b1 b2 = Inl e \<longrightarrow> e = KeyError"
    by (auto simp: merge_digit_HP90EPD_def dest: segment_error)
  have lcd: "decode_lcd flags_HP90EPD (segment_digits merge_digit_HP90EPD pairs_HP90EPD) [] (buf @ data) = Inl KeyError"
    by (rule decode_lcd_miss [OF fl pr er]) (rule assms)
  show ?thesis using assms lcd by (simp add: decode_HP90EPD_def decode_digits_HP90EPD_def)
qed

lemma miss_AN9002:
  assumes "length data = 11"
    and "misses merge_digit_AN9002 pairs_AN9002 (map2 (XOR) data flip_bits_AN9002)"
  shows "decode_AN9002 data = ([], Inl KeyError)"
proof -
  have f: "flip flip_bits_AN9002 data = Inr (map2 (XOR) data flip_bits_AN9002)"
    by (rule flip_same_length) (simp add: assms flip_bits_AN9002_def)
  have len: "length (map2 (XOR) data flip_bits_AN9002) = 11"
    by (simp add: assms flip_bits_AN9002_def)
  have fl: "list_all (\<lambda>f. fst (snd f) < length (map2 (XOR) data flip_bits_AN9002)) flags_AN9002"
    unfolding len by (simp add: assms flags_AN9002_def)
  have pr: "list_all (\<lambda>p. fst p < length (map2 (XOR) data flip_bits_AN9002) \<and> snd p < length (map2 (XOR) data flip_bits_AN9002)) pairs_AN9002"
    unfolding len by (simp add: assms pairs_AN9002_def)
  have er: "\<forall>b1 b2 e. merge_digit_AN9002 b1 b2 = Inl e \<longrightarrow> e = KeyError"
    by (auto simp: merge_digit_AN9002_def dest: segment_error)
  have lcd: "decode_lcd flags_AN9002 (segment_digits merge_digit_AN9002 pairs_AN9002) mode_strings_AN9002 (map2 (XOR) data flip_bits_AN9002) = Inl KeyError"
    by (rule decode_lcd_miss [OF fl pr er]) (rule assms)
  show ?thesis using assms(1) f lcd by (simp add: decode_AN9002_def decode_digits_AN9002_def)
qed

lemma miss_V05B:
  assumes "length data = 10"
    and "misses merge_digit_AN9002 pairs_AN9002 (map2 (XOR) data (take 10 flip_bits_AN9002))"
  shows "decode_V05B data = ([], Inl KeyError)"
proof -
  have f: "flip (take 10 flip_bits_AN9002) data
             = Inr (map2 (XOR) data (take 10 flip_bits_AN9002))"
    by (rule flip_same_length) (simp add: assms flip_bits_AN9002_def)
  have len: "length (map2 (XOR) data (take 10 flip_bits_AN9002)) = 10"
    by (simp add: assms flip_bits_AN9002_def)
  have fl: "list_all (\<lambda>f. fst (snd f) < length (map2 (XOR) data (take 10 flip_bits_AN9002))) flags_V05B"
    unfolding len by (simp add: assms flags_V05B_def)
  have pr: "list_all (\<lambda>p. fst p < length (map2 (XOR) data (take 10 flip_bits_AN9002)) \<and> snd p < length (map2 (XOR) data (take 10 flip_bits_AN9002))) pairs_AN9002"
    unfolding len by (simp add: assms pairs_AN9002_def)
  have er: "\<forall>b1 b2 e. merge_digit_AN9002 b1 b2 = Inl e \<longrightarrow> e = KeyError"
    by (auto simp: merge_digit_AN9002_def dest: segment_error)
  have lcd: "decode_lcd flags_V05B (segment_digits merge_digit_AN9002 pairs_AN9002) mode_strings_AN9002 (map2 (XOR) data (take 10 flip_bits_AN9002)) = Inl KeyError"
    by (rule decode_lcd_miss [OF fl pr er]) (rule assms)
  show ?thesis using assms(1) f lcd by (simp add: decode_V05B_def decode_digits_AN9002_def)
qed

lemma match2_length: "match2 data pattern \<Longrightarrow>
  length (filter (\<lambda>c. c \<noteq> CHR '' '') pattern) = length data * 2"
  by (simp add: match2_def Let_def split: if_splits)

lemma miss_BT7200_APP:
  assumes "match2 (recover data) ''1.2.3.4.5.6.7.8.9.A.B.C.D.E.F.''"
    and "misses merge_digit_BT7200_APP pairs_HP90EPD (recover data)"
  shows "decode_BT7200_APP data = ([], Inl KeyError)"
proof -
  have len: "length (recover data) = 15"
    using match2_length [OF assms(1)] by simp
  have fl: "list_all (\<lambda>f. fst (snd f) < length (recover data)) flags_BT7200_APP"
    unfolding len by (simp add: assms flags_BT7200_APP_def)
  have pr: "list_all (\<lambda>p. fst p < length (recover data) \<and> snd p < length (recover data)) pairs_HP90EPD"
    unfolding len by (simp add: assms pairs_HP90EPD_def)
  have er: "\<forall>b1 b2 e. merge_digit_BT7200_APP b1 b2 = Inl e \<longrightarrow> e = KeyError"
    by (auto simp: merge_digit_BT7200_APP_def dest: segment_error)
  have lcd: "decode_lcd flags_BT7200_APP (segment_digits merge_digit_BT7200_APP pairs_HP90EPD) [] (recover data) = Inl KeyError"
    by (rule decode_lcd_miss [OF fl pr er]) (rule assms)
  show ?thesis using assms(1) lcd
    by (simp add: decode_BT7200_APP_def decode_digits_BT7200_APP_def Let_def)
qed

text \<open>
  C2 as stated fails: a TS04 frame of the right length whose first digit merges to
  the pattern \<open>0x20\<close>, which the table does not hold, makes \<^verbatim>\<open>decode\<close> raise
  \<^verbatim>\<open>KeyError\<close>; no absent triple is returned and nothing is printed.
\<close>

theorem segment_miss_escapes:
  "length [0, 0x20, 0, 0, 0, 0, 0, 0, 0 :: byte] = 9
   \<and> map_of segments_TS04 ((0x20 AND 0xE0) OR (0 AND 0x0F)) = None
   \<and> decode_TS04 [0, 0x20, 0, 0, 0, 0, 0, 0, 0] = ([], Inl KeyError)"
  by code_simp

text \<open>
  C2, amended. In the five models with a segment table, a frame that passes the shape
  check and has a digit whose merged pattern is not in the table makes \<^verbatim>\<open>decode\<close>
  raise \<^verbatim>\<open>KeyError\<close>: nothing is printed, nothing is returned and the decoder object
  is unchanged. The patterns are those of the frame \<^verbatim>\<open>decode_lcd\<close> receives: after
  the first packet is prepended (HP90EPD), after the whitening (AN9002, V05B), after
  the repair (BT7200_APP).
\<close>

theorem segment_miss_raises:
  "(length data = 9 \<and> data \<noteq> send_data \<and> misses merge_digit_TS04 pairs_TS04 data \<longrightarrow>
      decode is_overload \<lparr>model = TS04, buffer = b\<rparr> data
        = (([], Inl KeyError), \<lparr>model = TS04, buffer = b\<rparr>))
   \<and> (length data = 6 \<and> length b = 8 \<and> misses merge_digit_HP90EPD pairs_HP90EPD (b @ data) \<longrightarrow>
      decode is_overload \<lparr>model = HP90EPD, buffer = b\<rparr> data
        = (([], Inl KeyError), \<lparr>model = HP90EPD, buffer = b\<rparr>))
   \<and> (length data = 11
        \<and> misses merge_digit_AN9002 pairs_AN9002 (map2 (XOR) data flip_bits_AN9002) \<longrightarrow>
      decode is_overload \<lparr>model = AN9002, buffer = b\<rparr> data
        = (([], Inl KeyError), \<lparr>model = AN9002, buffer = b\<rparr>))
   \<and> (length data = 10
        \<and> misses merge_digit_AN9002 pairs_AN9002 (map2 (XOR) data (take 10 flip_bits_AN9002)) \<longrightarrow>
      decode is_overload \<lparr>model = V05B, buffer = b\<rparr> data
        = (([], Inl KeyError), \<lparr>model = V05B, buffer = b\<rparr>))
   \<and> (match2 (recover data) ''1.2.3.4.5.6.7.8.9.A.B.C.D.E.F.''
        \<and> misses merge_digit_BT7200_APP pairs_HP90EPD (recover data) \<longrightarrow>
      decode is_overload \<lparr>model = BT7200_APP, buffer = b\<rparr> data
        = (([], Inl KeyError), \<lparr>model = BT7200_APP, buffer = b\<rparr>))"
  by (simp add: decode_def miss_TS04 miss_HP90EPD miss_AN9002 miss_V05B miss_BT7200_APP)


theorem segment_miss_raises_witness:
  "(length ([0, 0x20, 0, 0, 0, 0, 0, 0, 0] :: byte list) = 9 \<and> [0, 0x20, 0, 0, 0, 0, 0, 0, 0] \<noteq> send_data
      \<and> misses merge_digit_TS04 pairs_TS04 [0, 0x20, 0, 0, 0, 0, 0, 0, 0])
   \<and> decode (\<lambda>v. False) \<lparr>model = TS04, buffer = []\<rparr> [0, 0x20, 0, 0, 0, 0, 0, 0, 0]
       = (([], Inl KeyError), \<lparr>model = TS04, buffer = []\<rparr>)
   \<and> (length ([0, 0, 0, 0, 0, 0] :: byte list) = 6 \<and> length ([0, 1, 0, 0, 0, 0, 0, 0] :: byte list) = 8
      \<and> misses merge_digit_HP90EPD pairs_HP90EPD ([0, 1, 0, 0, 0, 0, 0, 0] @ [0, 0, 0, 0, 0, 0]))
   \<and> decode (\<lambda>v. False) \<lparr>model = HP90EPD, buffer = [0, 1, 0, 0, 0, 0, 0, 0]\<rparr> [0, 0, 0, 0, 0, 0]
       = (([], Inl KeyError), \<lparr>model = HP90EPD, buffer = [0, 1, 0, 0, 0, 0, 0, 0]\<rparr>)
   \<and> (length ([0x1B, 0x84, 0x70, 0x75, 0xA2, 0xC1, 0x32, 0x71, 0x66, 0xAA, 0x3B] :: byte list) = 11
      \<and> misses merge_digit_AN9002 pairs_AN9002 (map2 (XOR) [0x1B, 0x84, 0x70, 0x75, 0xA2, 0xC1, 0x32, 0x71, 0x66, 0xAA, 0x3B] flip_bits_AN9002))
   \<and> decode (\<lambda>v. False) \<lparr>model = AN9002, buffer = []\<rparr> [0x1B, 0x84, 0x70, 0x75, 0xA2, 0xC1, 0x32, 0x71, 0x66, 0xAA, 0x3B]
       = (([], Inl KeyError), \<lparr>model = AN9002, buffer = []\<rparr>)
   \<and> (length ([0x1B, 0x84, 0x70, 0x75, 0xA2, 0xC1, 0x32, 0x71, 0x66, 0xAA] :: byte list) = 10
      \<and> misses merge_digit_AN9002 pairs_AN9002 (map2 (XOR) [0x1B, 0x84, 0x70, 0x75, 0xA2, 0xC1, 0x32, 0x71, 0x66, 0xAA] (take 10 flip_bits_AN9002)))
   \<and> decode (\<lambda>v. False) \<lparr>model = V05B, buffer = []\<rparr> [0x1B, 0x84, 0x70, 0x75, 0xA2, 0xC1, 0x32, 0x71, 0x66, 0xAA]
       = (([], Inl KeyError), \<lparr>model = V05B, buffer = []\<rparr>)
   \<and> (match2 (recover [0x10, 0x22, 0x30, 0x40, 0x50, 0x60, 0x70, 0x80, 0x90, 0xA0, 0xB0, 0xC0, 0xD0, 0xE0, 0xF0]) ''1.2.3.4.5.6.7.8.9.A.B.C.D.E.F.''
      \<and> misses merge_digit_BT7200_APP pairs_HP90EPD (recover [0x10, 0x22, 0x30, 0x40, 0x50, 0x60, 0x70, 0x80, 0x90, 0xA0, 0xB0, 0xC0, 0xD0, 0xE0, 0xF0]))
   \<and> decode (\<lambda>v. False) \<lparr>model = BT7200_APP, buffer = []\<rparr> [0x10, 0x22, 0x30, 0x40, 0x50, 0x60, 0x70, 0x80, 0x90, 0xA0, 0xB0, 0xC0, 0xD0, 0xE0, 0xF0]
       = (([], Inl KeyError), \<lparr>model = BT7200_APP, buffer = []\<rparr>)"
proof -
  have h1: "length ([0, 0x20, 0, 0, 0, 0, 0, 0, 0] :: byte list) = 9 \<and> [0, 0x20, 0, 0, 0, 0, 0, 0, 0] \<noteq> send_data
      \<and> misses merge_digit_TS04 pairs_TS04 [0, 0x20, 0, 0, 0, 0, 0, 0, 0]"
    by code_simp
  have h2: "length ([0, 0, 0, 0, 0, 0] :: byte list) = 6 \<and> length ([0, 1, 0, 0, 0, 0, 0, 0] :: byte list) = 8
      \<and> misses merge_digit_HP90EPD pairs_HP90EPD ([0, 1, 0, 0, 0, 0, 0, 0] @ [0, 0, 0, 0, 0, 0])"
    by code_simp
  have h3: "length ([0x1B, 0x84, 0x70, 0x75, 0xA2, 0xC1, 0x32, 0x71, 0x66, 0xAA, 0x3B] :: byte list) = 11
      \<and> misses merge_digit_AN9002 pairs_AN9002 (map2 (XOR) [0x1B, 0x84, 0x70, 0x75, 0xA2, 0xC1, 0x32, 0x71, 0x66, 0xAA, 0x3B] flip_bits_AN9002)"
    by code_simp
  have h4: "length ([0x1B, 0x84, 0x70, 0x75, 0xA2, 0xC1, 0x32, 0x71, 0x66, 0xAA] :: byte list) = 10
      \<and> misses merge_digit_AN9002 pairs_AN9002 (map2 (XOR) [0x1B, 0x84, 0x70, 0x75, 0xA2, 0xC1, 0x32, 0x71, 0x66, 0xAA] (take 10 flip_bits_AN9002))"
    by code_simp
  have h5: "match2 (recover [0x10, 0x22, 0x30, 0x40, 0x50, 0x60, 0x70, 0x80, 0x90, 0xA0, 0xB0, 0xC0, 0xD0, 0xE0, 0xF0]) ''1.2.3.4.5.6.7.8.9.A.B.C.D.E.F.''
      \<and> misses merge_digit_BT7200_APP pairs_HP90EPD (recover [0x10, 0x22, 0x30, 0x40, 0x50, 0x60, 0x70, 0x80, 0x90, 0xA0, 0xB0, 0xC0, 0xD0, 0xE0, 0xF0])"
    by code_simp
  note q1 = segment_miss_raises [where data = "[0, 0x20, 0, 0, 0, 0, 0, 0, 0]" and is_overload = "\<lambda>v. False" and b = "[]",
      THEN conjunct1, THEN mp, OF h1]
  note q2 = segment_miss_raises [where data = "[0, 0, 0, 0, 0, 0]" and is_overload = "\<lambda>v. False" and b = "[0, 1, 0, 0, 0, 0, 0, 0]",
      THEN conjunct2, THEN conjunct1, THEN mp, OF h2]
  note q3 = segment_miss_raises [where data = "[0x1B, 0x84, 0x70, 0x75, 0xA2, 0xC1, 0x32, 0x71, 0x66, 0xAA, 0x3B]" and is_overload = "\<lambda>v. False" and b = "[]",
      THEN conjunct2, THEN conjunct2, THEN conjunct1, THEN mp, OF h3]
  note q4 = segment_miss_raises [where data = "[0x1B, 0x84, 0x70, 0x75, 0xA2, 0xC1, 0x32, 0x71, 0x66, 0xAA]" and is_overload = "\<lambda>v. False" and b = "[]",
      THEN conjunct2, THEN conjunct2, THEN conjunct2, THEN conjunct1, THEN mp, OF h4]
  note q5 = segment_miss_raises [where data = "[0x10, 0x22, 0x30, 0x40, 0x50, 0x60, 0x70, 0x80, 0x90, 0xA0, 0xB0, 0xC0, 0xD0, 0xE0, 0xF0]" and is_overload = "\<lambda>v. False" and b = "[]",
      THEN conjunct2, THEN conjunct2, THEN conjunct2, THEN conjunct2, THEN mp, OF h5]
  show ?thesis
    by (rule conjI [OF h1 conjI [OF q1 conjI [OF h2 conjI [OF q2 conjI [OF h3 conjI [OF q3
          conjI [OF h4 conjI [OF q4 conjI [OF h5 q5]]]]]]]]])
qed

section \<open>Repeated calls on the same bytes (C8)\<close>











section \<open>When lastseen is written (C4)\<close>

lemma reporting_devices:
  "reporting address u s = Inr s2 \<Longrightarrow> devices s2 = devices s"
  by (auto simp: reporting_def Let_def split: option.splits)

lemma reporting_registered:
  "devices s address = Some d \<Longrightarrow> \<exists>s2. reporting address u s = Inr s2"
  by (simp add: reporting_def Let_def split: option.splits)

lemma callback_loop_lastseen:
  "devices s address = Some d \<Longrightarrow> ts \<noteq> [] \<Longrightarrow>
   fst (callback_loop now i address (map Some ts) s) = None
   \<and> lastseen_of (snd (callback_loop now i address (map Some ts) s)) address
       = Some (Seen (now (i + length ts - 1)))"
proof (induction ts arbitrary: i s d)
  case Nil
  then show ?case by simp
next
  case (Cons t ts)
  let ?s1 = "s\<lparr>messages := messages s @ [(now i, address, Some t)]\<rparr>"
  have d1: "devices ?s1 address = Some d" using Cons.prems by simp
  obtain s2 where s2: "reporting address (snd (snd t)) ?s1 = Inr s2"
    using reporting_registered [OF d1] by blast
  have d2: "devices s2 address = Some d" using reporting_devices [OF s2] d1 by simp
  let ?s3 = "s2\<lparr>devices := (devices s2)(address \<mapsto> d\<lparr>dev_lastseen := Seen (now i)\<rparr>)\<rparr>"
  have s3: "set_lastseen address (Seen (now i)) s2 = Inr ?s3"
    using d2 by (simp add: set_lastseen_def)
  have step: "callback_loop now i address (map Some (t # ts)) s
                = callback_loop now (i + 1) address (map Some ts) ?s3"
    using s2 s3 by simp
  show ?case
  proof (cases "ts = []")
    case True
    then show ?thesis unfolding step by (simp add: lastseen_of_def)
  next
    case False
    have d3: "devices ?s3 address = Some (d\<lparr>dev_lastseen := Seen (now i)\<rparr>)" by simp
    from Cons.IH [OF d3 False, of "i + 1"] show ?thesis unfolding step by simp
  qed
qed

text \<open>
  C4, as the specification states it, fails for a frame at which \<^verbatim>\<open>decode\<close> raises.
  A TS04 meter is registered; the frame \<^verbatim>\<open>00 e0 eb eb eb 0b 00 02 00\<close> arrives at time
  5 and decodes to \<^verbatim>\<open>0 volts\<close>, so \<^verbatim>\<open>lastseen\<close> is 5. The frame
  \<^verbatim>\<open>00 20 00 00 00 00 00 00 00\<close> arrives at time 1000: its first digit is not in the
  segment table, \<^verbatim>\<open>KeyError\<close> leaves \<^verbatim>\<open>_message_callback\<close> before the loop that
  sets \<^verbatim>\<open>lastseen\<close>, and \<^verbatim>\<open>lastseen\<close> is still 5.
\<close>

theorem failed_frame_not_refreshed:
  "lastseen_of
     (snd (snd (message_callback (\<lambda>v. False) (\<lambda>i. 5) ''AA'' [0, 0xE0, 0xEB, 0xEB, 0xEB, 0x0B, 0, 0x02, 0]
        (register_device ''AA'' ''ffe1'' \<lparr>model = TS04, buffer = []\<rparr> None None None None False
           (new_session 0))))) ''AA''
     = Some (Seen 5)
   \<and> fst (snd (message_callback (\<lambda>v. False) (\<lambda>i. 1000) ''AA'' [0, 0x20, 0, 0, 0, 0, 0, 0, 0]
        (snd (snd (message_callback (\<lambda>v. False) (\<lambda>i. 5) ''AA'' [0, 0xE0, 0xEB, 0xEB, 0xEB, 0x0B, 0, 0x02, 0]
           (register_device ''AA'' ''ffe1'' \<lparr>model = TS04, buffer = []\<rparr> None None None None False
              (new_session 0)))))))
     = Some KeyError
   \<and> lastseen_of
       (snd (snd (message_callback (\<lambda>v. False) (\<lambda>i. 1000) ''AA'' [0, 0x20, 0, 0, 0, 0, 0, 0, 0]
          (snd (snd (message_callback (\<lambda>v. False) (\<lambda>i. 5) ''AA'' [0, 0xE0, 0xEB, 0xEB, 0xEB, 0x0B, 0, 0x02, 0]
             (register_device ''AA'' ''ffe1'' \<lparr>model = TS04, buffer = []\<rparr> None None None None False
                (new_session 0)))))))) ''AA''
     = Some (Seen 5)"
  by code_simp

text \<open>
  C4, amended. For a registered device: when \<^verbatim>\<open>decode\<close> returns a list of one or
  more triples (the absent triple of a frame that is not recognised included), the
  callback ends without an exception and \<^verbatim>\<open>lastseen\<close> is the time stamp of the last
  triple put into the queue; when \<^verbatim>\<open>decode\<close> raises, the exception leaves the
  callback and \<^verbatim>\<open>lastseen\<close> is what it was. The liveness test sets \<^verbatim>\<open>lastseen\<close> to
  \<^verbatim>\<open>0\<close> when it raises \<^verbatim>\<open>TimeoutError\<close> and leaves the session as it was when it
  does not.
\<close>

theorem lastseen_refresh:
  assumes "devices s address = Some d"
  shows "(snd (fst (decode is_overload (dev_decode d) data)) = Inr (ResultList ts) \<and> ts \<noteq> [] \<longrightarrow>
           fst (snd (message_callback is_overload now address data s)) = None
           \<and> lastseen_of (snd (snd (message_callback is_overload now address data s))) address
               = Some (Seen (now (length ts - 1))))
       \<and> (snd (fst (decode is_overload (dev_decode d) data)) = Inl e \<longrightarrow>
           fst (snd (message_callback is_overload now address data s)) = Some e
           \<and> lastseen_of (snd (snd (message_callback is_overload now address data s))) address
               = lastseen_of s address)
       \<and> (fst (watchdog t address s) = Some TimeoutError \<longrightarrow>
           lastseen_of (snd (watchdog t address s)) address = Some Never)
       \<and> (fst (watchdog t address s) \<noteq> Some TimeoutError \<longrightarrow> snd (watchdog t address s) = s)"
proof (intro conjI impI)
  assume a: "snd (fst (decode is_overload (dev_decode d) data)) = Inr (ResultList ts) \<and> ts \<noteq> []"
  let ?r = "decode is_overload (dev_decode d) data"
  let ?s0 = "s\<lparr>devices := (devices s)(address \<mapsto> d\<lparr>dev_decode := snd ?r\<rparr>)\<rparr>"
  have d0: "devices ?s0 address = Some (d\<lparr>dev_decode := snd ?r\<rparr>)" by simp
  have mc: "snd (message_callback is_overload now address data s)
              = callback_loop now 0 address (map Some ts) ?s0"
    using assms a by (simp add: message_callback_def Let_def)
  from callback_loop_lastseen [OF d0, of ts now 0] a
  show "fst (snd (message_callback is_overload now address data s)) = None"
    and "lastseen_of (snd (snd (message_callback is_overload now address data s))) address
               = Some (Seen (now (length ts - 1)))"
    unfolding mc by simp_all
next
  assume "snd (fst (decode is_overload (dev_decode d) data)) = Inl e"
  then show "fst (snd (message_callback is_overload now address data s)) = Some e"
    and "lastseen_of (snd (snd (message_callback is_overload now address data s))) address
               = lastseen_of s address"
    using assms by (simp_all add: message_callback_def Let_def lastseen_of_def)
next
  assume "fst (watchdog t address s) = Some TimeoutError"
  then show "lastseen_of (snd (watchdog t address s)) address = Some Never"
    using assms by (auto simp: watchdog_def lastseen_of_def split: lastseen.splits if_splits)
next
  assume "fst (watchdog t address s) \<noteq> Some TimeoutError"
  then show "snd (watchdog t address s) = s"
    using assms by (auto simp: watchdog_def split: lastseen.splits if_splits)
qed


theorem lastseen_refresh_witness:
  "devices ((new_session 0)\<lparr>devices := [''AA'' \<mapsto> \<lparr>dev_uuid = ''ffe1'', dev_decode = \<lparr>model = TS04, buffer = []\<rparr>, dev_alias = None,
          dev_lastseen = Seen 5, dev_poll_msg = None, dev_init_msg = None, dev_stop_msg = None\<rparr>]\<rparr>) ''AA'' = Some \<lparr>dev_uuid = ''ffe1'', dev_decode = \<lparr>model = TS04, buffer = []\<rparr>, dev_alias = None,
          dev_lastseen = Seen 5, dev_poll_msg = None, dev_init_msg = None, dev_stop_msg = None\<rparr>
   \<and> snd (fst (decode (\<lambda>v. False) (dev_decode \<lparr>dev_uuid = ''ffe1'', dev_decode = \<lparr>model = TS04, buffer = []\<rparr>, dev_alias = None,
          dev_lastseen = Seen 5, dev_poll_msg = None, dev_init_msg = None, dev_stop_msg = None\<rparr>) [0, 0xE0, 0xEB, 0xEB, 0xEB, 0x0B, 0, 0x02, 0])) = Inr (ResultList [(Some [(''volts'', LTrue), (''digits'', LStr ''0000'')], Some (PInt 0), Some ''volts'')])
   \<and> [(Some [(''volts'', LTrue), (''digits'', LStr ''0000'')], Some (PInt 0), Some ''volts'')] \<noteq> []
   \<and> fst (snd (message_callback (\<lambda>v. False) (\<lambda>i. 1000) ''AA'' [0, 0xE0, 0xEB, 0xEB, 0xEB, 0x0B, 0, 0x02, 0] ((new_session 0)\<lparr>devices := [''AA'' \<mapsto> \<lparr>dev_uuid = ''ffe1'', dev_decode = \<lparr>model = TS04, buffer = []\<rparr>, dev_alias = None,
          dev_lastseen = Seen 5, dev_poll_msg = None, dev_init_msg = None, dev_stop_msg = None\<rparr>]\<rparr>))) = None
   \<and> lastseen_of (snd (snd (message_callback (\<lambda>v. False) (\<lambda>i. 1000) ''AA'' [0, 0xE0, 0xEB, 0xEB, 0xEB, 0x0B, 0, 0x02, 0] ((new_session 0)\<lparr>devices := [''AA'' \<mapsto> \<lparr>dev_uuid = ''ffe1'', dev_decode = \<lparr>model = TS04, buffer = []\<rparr>, dev_alias = None,
          dev_lastseen = Seen 5, dev_poll_msg = None, dev_init_msg = None, dev_stop_msg = None\<rparr>]\<rparr>)))) ''AA'' = Some (Seen 1000)
   \<and> snd (fst (decode (\<lambda>v. False) (dev_decode \<lparr>dev_uuid = ''ffe1'', dev_decode = \<lparr>model = TS04, buffer = []\<rparr>, dev_alias = None,
          dev_lastseen = Seen 5, dev_poll_msg = None, dev_init_msg = None, dev_stop_msg = None\<rparr>) [0, 0x20, 0, 0, 0, 0, 0, 0, 0])) = Inl KeyError
   \<and> fst (snd (message_callback (\<lambda>v. False) (\<lambda>i. 1000) ''AA'' [0, 0x20, 0, 0, 0, 0, 0, 0, 0] ((new_session 0)\<lparr>devices := [''AA'' \<mapsto> \<lparr>dev_uuid = ''ffe1'', dev_decode = \<lparr>model = TS04, buffer = []\<rparr>, dev_alias = None,
          dev_lastseen = Seen 5, dev_poll_msg = None, dev_init_msg = None, dev_stop_msg = None\<rparr>]\<rparr>))) = Some KeyError
   \<and> lastseen_of (snd (snd (message_callback (\<lambda>v. False) (\<lambda>i. 1000) ''AA'' [0, 0x20, 0, 0, 0, 0, 0, 0, 0] ((new_session 0)\<lparr>devices := [''AA'' \<mapsto> \<lparr>dev_uuid = ''ffe1'', dev_decode = \<lparr>model = TS04, buffer = []\<rparr>, dev_alias = None,
          dev_lastseen = Seen 5, dev_poll_msg = None, dev_init_msg = None, dev_stop_msg = None\<rparr>]\<rparr>)))) ''AA'' = Some (Seen 5)
   \<and> fst (watchdog 3000000 ''AA'' ((new_session 0)\<lparr>devices := [''AA'' \<mapsto> \<lparr>dev_uuid = ''ffe1'', dev_decode = \<lparr>model = TS04, buffer = []\<rparr>, dev_alias = None,
          dev_lastseen = Seen 5, dev_poll_msg = None, dev_init_msg = None, dev_stop_msg = None\<rparr>]\<rparr>)) = Some TimeoutError
   \<and> lastseen_of (snd (watchdog 3000000 ''AA'' ((new_session 0)\<lparr>devices := [''AA'' \<mapsto> \<lparr>dev_uuid = ''ffe1'', dev_decode = \<lparr>model = TS04, buffer = []\<rparr>, dev_alias = None,
          dev_lastseen = Seen 5, dev_poll_msg = None, dev_init_msg = None, dev_stop_msg = None\<rparr>]\<rparr>))) ''AA'' = Some Never
   \<and> fst (watchdog 2000005 ''AA'' ((new_session 0)\<lparr>devices := [''AA'' \<mapsto> \<lparr>dev_uuid = ''ffe1'', dev_decode = \<lparr>model = TS04, buffer = []\<rparr>, dev_alias = None,
          dev_lastseen = Seen 5, dev_poll_msg = None, dev_init_msg = None, dev_stop_msg = None\<rparr>]\<rparr>)) \<noteq> Some TimeoutError
   \<and> snd (watchdog 2000005 ''AA'' ((new_session 0)\<lparr>devices := [''AA'' \<mapsto> \<lparr>dev_uuid = ''ffe1'', dev_decode = \<lparr>model = TS04, buffer = []\<rparr>, dev_alias = None,
          dev_lastseen = Seen 5, dev_poll_msg = None, dev_init_msg = None, dev_stop_msg = None\<rparr>]\<rparr>)) = ((new_session 0)\<lparr>devices := [''AA'' \<mapsto> \<lparr>dev_uuid = ''ffe1'', dev_decode = \<lparr>model = TS04, buffer = []\<rparr>, dev_alias = None,
          dev_lastseen = Seen 5, dev_poll_msg = None, dev_init_msg = None, dev_stop_msg = None\<rparr>]\<rparr>)"
proof -
  have h0: "devices ((new_session 0)\<lparr>devices := [''AA'' \<mapsto> \<lparr>dev_uuid = ''ffe1'', dev_decode = \<lparr>model = TS04, buffer = []\<rparr>, dev_alias = None,
          dev_lastseen = Seen 5, dev_poll_msg = None, dev_init_msg = None, dev_stop_msg = None\<rparr>]\<rparr>) ''AA'' = Some \<lparr>dev_uuid = ''ffe1'', dev_decode = \<lparr>model = TS04, buffer = []\<rparr>, dev_alias = None,
          dev_lastseen = Seen 5, dev_poll_msg = None, dev_init_msg = None, dev_stop_msg = None\<rparr>"
    by simp
  have hA: "snd (fst (decode (\<lambda>v. False) (dev_decode \<lparr>dev_uuid = ''ffe1'', dev_decode = \<lparr>model = TS04, buffer = []\<rparr>, dev_alias = None,
          dev_lastseen = Seen 5, dev_poll_msg = None, dev_init_msg = None, dev_stop_msg = None\<rparr>) [0, 0xE0, 0xEB, 0xEB, 0xEB, 0x0B, 0, 0x02, 0])) = Inr (ResultList [(Some [(''volts'', LTrue), (''digits'', LStr ''0000'')], Some (PInt 0), Some ''volts'')])"
    by code_simp
  have hN: "[(Some [(''volts'', LTrue), (''digits'', LStr ''0000'')], Some (PInt 0), Some ''volts'')] \<noteq> []"
    by simp
  note th1 = lastseen_refresh [where s = "((new_session 0)\<lparr>devices := [''AA'' \<mapsto> \<lparr>dev_uuid = ''ffe1'', dev_decode = \<lparr>model = TS04, buffer = []\<rparr>, dev_alias = None,
          dev_lastseen = Seen 5, dev_poll_msg = None, dev_init_msg = None, dev_stop_msg = None\<rparr>]\<rparr>)" and address = "''AA''"
      and d = "\<lparr>dev_uuid = ''ffe1'', dev_decode = \<lparr>model = TS04, buffer = []\<rparr>, dev_alias = None,
          dev_lastseen = Seen 5, dev_poll_msg = None, dev_init_msg = None, dev_stop_msg = None\<rparr>"
      and is_overload = "(\<lambda>v. False)" and now = "(\<lambda>i. 1000)" and data = "[0, 0xE0, 0xEB, 0xEB, 0xEB, 0x0B, 0, 0x02, 0]" and t = 3000000 and ts = "[(Some [(''volts'', LTrue), (''digits'', LStr ''0000'')], Some (PInt 0), Some ''volts'')]", OF h0]
  note th2 = lastseen_refresh [where s = "((new_session 0)\<lparr>devices := [''AA'' \<mapsto> \<lparr>dev_uuid = ''ffe1'', dev_decode = \<lparr>model = TS04, buffer = []\<rparr>, dev_alias = None,
          dev_lastseen = Seen 5, dev_poll_msg = None, dev_init_msg = None, dev_stop_msg = None\<rparr>]\<rparr>)" and address = "''AA''"
      and d = "\<lparr>dev_uuid = ''ffe1'', dev_decode = \<lparr>model = TS04, buffer = []\<rparr>, dev_alias = None,
          dev_lastseen = Seen 5, dev_poll_msg = None, dev_init_msg = None, dev_stop_msg = None\<rparr>"
      and is_overload = "(\<lambda>v. False)" and now = "(\<lambda>i. 1000)" and data = "[0, 0x20, 0, 0, 0, 0, 0, 0, 0]" and t = 3000000 and e = KeyError, OF h0]
  note th3 = lastseen_refresh [where s = "((new_session 0)\<lparr>devices := [''AA'' \<mapsto> \<lparr>dev_uuid = ''ffe1'', dev_decode = \<lparr>model = TS04, buffer = []\<rparr>, dev_alias = None,
          dev_lastseen = Seen 5, dev_poll_msg = None, dev_init_msg = None, dev_stop_msg = None\<rparr>]\<rparr>)" and address = "''AA''"
      and d = "\<lparr>dev_uuid = ''ffe1'', dev_decode = \<lparr>model = TS04, buffer = []\<rparr>, dev_alias = None,
          dev_lastseen = Seen 5, dev_poll_msg = None, dev_init_msg = None, dev_stop_msg = None\<rparr>"
      and is_overload = "(\<lambda>v. False)" and now = "(\<lambda>i. 1000)" and data = "[0, 0xE0, 0xEB, 0xEB, 0xEB, 0x0B, 0, 0x02, 0]" and t = 2000005 and ts = "[(Some [(''volts'', LTrue), (''digits'', LStr ''0000'')], Some (PInt 0), Some ''volts'')]", OF h0]
  have cA1: "fst (snd (message_callback (\<lambda>v. False) (\<lambda>i. 1000) ''AA'' [0, 0xE0, 0xEB, 0xEB, 0xEB, 0x0B, 0, 0x02, 0] ((new_session 0)\<lparr>devices := [''AA'' \<mapsto> \<lparr>dev_uuid = ''ffe1'', dev_decode = \<lparr>model = TS04, buffer = []\<rparr>, dev_alias = None,
          dev_lastseen = Seen 5, dev_poll_msg = None, dev_init_msg = None, dev_stop_msg = None\<rparr>]\<rparr>))) = None"
    using th1 [THEN conjunct1] hA hN by blast
  have cA2: "lastseen_of (snd (snd (message_callback (\<lambda>v. False) (\<lambda>i. 1000) ''AA'' [0, 0xE0, 0xEB, 0xEB, 0xEB, 0x0B, 0, 0x02, 0] ((new_session 0)\<lparr>devices := [''AA'' \<mapsto> \<lparr>dev_uuid = ''ffe1'', dev_decode = \<lparr>model = TS04, buffer = []\<rparr>, dev_alias = None,
          dev_lastseen = Seen 5, dev_poll_msg = None, dev_init_msg = None, dev_stop_msg = None\<rparr>]\<rparr>)))) ''AA'' = Some (Seen 1000)"
    using th1 [THEN conjunct1] hA hN by simp
  have hB: "snd (fst (decode (\<lambda>v. False) (dev_decode \<lparr>dev_uuid = ''ffe1'', dev_decode = \<lparr>model = TS04, buffer = []\<rparr>, dev_alias = None,
          dev_lastseen = Seen 5, dev_poll_msg = None, dev_init_msg = None, dev_stop_msg = None\<rparr>) [0, 0x20, 0, 0, 0, 0, 0, 0, 0])) = Inl KeyError"
    by code_simp
  have cB1: "fst (snd (message_callback (\<lambda>v. False) (\<lambda>i. 1000) ''AA'' [0, 0x20, 0, 0, 0, 0, 0, 0, 0] ((new_session 0)\<lparr>devices := [''AA'' \<mapsto> \<lparr>dev_uuid = ''ffe1'', dev_decode = \<lparr>model = TS04, buffer = []\<rparr>, dev_alias = None,
          dev_lastseen = Seen 5, dev_poll_msg = None, dev_init_msg = None, dev_stop_msg = None\<rparr>]\<rparr>))) = Some KeyError"
    using th2 [THEN conjunct2, THEN conjunct1] hB by blast
  have cB2: "lastseen_of (snd (snd (message_callback (\<lambda>v. False) (\<lambda>i. 1000) ''AA'' [0, 0x20, 0, 0, 0, 0, 0, 0, 0] ((new_session 0)\<lparr>devices := [''AA'' \<mapsto> \<lparr>dev_uuid = ''ffe1'', dev_decode = \<lparr>model = TS04, buffer = []\<rparr>, dev_alias = None,
          dev_lastseen = Seen 5, dev_poll_msg = None, dev_init_msg = None, dev_stop_msg = None\<rparr>]\<rparr>)))) ''AA'' = Some (Seen 5)"
    using th2 [THEN conjunct2, THEN conjunct1] hB by (simp add: lastseen_of_def)
  have hW: "fst (watchdog 3000000 ''AA'' ((new_session 0)\<lparr>devices := [''AA'' \<mapsto> \<lparr>dev_uuid = ''ffe1'', dev_decode = \<lparr>model = TS04, buffer = []\<rparr>, dev_alias = None,
          dev_lastseen = Seen 5, dev_poll_msg = None, dev_init_msg = None, dev_stop_msg = None\<rparr>]\<rparr>)) = Some TimeoutError"
    by (simp add: watchdog_def)
  have cW: "lastseen_of (snd (watchdog 3000000 ''AA'' ((new_session 0)\<lparr>devices := [''AA'' \<mapsto> \<lparr>dev_uuid = ''ffe1'', dev_decode = \<lparr>model = TS04, buffer = []\<rparr>, dev_alias = None,
          dev_lastseen = Seen 5, dev_poll_msg = None, dev_init_msg = None, dev_stop_msg = None\<rparr>]\<rparr>))) ''AA'' = Some Never"
    using th1 [THEN conjunct2, THEN conjunct2, THEN conjunct1] hW by blast
  have hV: "fst (watchdog 2000005 ''AA'' ((new_session 0)\<lparr>devices := [''AA'' \<mapsto> \<lparr>dev_uuid = ''ffe1'', dev_decode = \<lparr>model = TS04, buffer = []\<rparr>, dev_alias = None,
          dev_lastseen = Seen 5, dev_poll_msg = None, dev_init_msg = None, dev_stop_msg = None\<rparr>]\<rparr>)) \<noteq> Some TimeoutError"
    by (simp add: watchdog_def)
  have cV: "snd (watchdog 2000005 ''AA'' ((new_session 0)\<lparr>devices := [''AA'' \<mapsto> \<lparr>dev_uuid = ''ffe1'', dev_decode = \<lparr>model = TS04, buffer = []\<rparr>, dev_alias = None,
          dev_lastseen = Seen 5, dev_poll_msg = None, dev_init_msg = None, dev_stop_msg = None\<rparr>]\<rparr>)) = ((new_session 0)\<lparr>devices := [''AA'' \<mapsto> \<lparr>dev_uuid = ''ffe1'', dev_decode = \<lparr>model = TS04, buffer = []\<rparr>, dev_alias = None,
          dev_lastseen = Seen 5, dev_poll_msg = None, dev_init_msg = None, dev_stop_msg = None\<rparr>]\<rparr>)"
    using th3 [THEN conjunct2, THEN conjunct2, THEN conjunct2] hV by blast
  show ?thesis
    by (intro conjI) (rule h0 hA hN cA1 cA2 hB cB1 cB2 hW cW hV cV)+
qed

section \<open>Device tasks: the liveness test and the gate (C5, C7)\<close>












text \<open>
  C7 does not hold of the code. Two TS04 meters, \<^verbatim>\<open>AA\<close> and \<^verbatim>\<open>BB\<close>, are
  registered. The task of \<^verbatim>\<open>AA\<close> acquires the gate, connects, subscribes and
  releases the gate; a notification of \<^verbatim>\<open>AA\<close> arrives at second 1. The task of
  \<^verbatim>\<open>BB\<close> acquires the gate and is connecting. \<^verbatim>\<open>AA\<close> falls silent, and the pass
  of its liveness test at second 3.1 raises \<^verbatim>\<open>TimeoutError\<close>: the handler finds the
  gate locked and releases it, although it is the task of \<^verbatim>\<open>BB\<close> that holds it.
  After its backoff the task of \<^verbatim>\<open>AA\<close> acquires the free gate, and both tasks are
  between acquisition and subscription. When \<^verbatim>\<open>BB\<close> has subscribed it releases the
  gate that \<^verbatim>\<open>AA\<close> holds, and the \<^verbatim>\<open>release()\<close> of \<^verbatim>\<open>AA\<close> then raises
  \<^verbatim>\<open>RuntimeError\<close>, which \<^verbatim>\<open>_messy_cleanup\<close> answers by clearing the run signal.
  The four values of an outcome are the phases of \<^verbatim>\<open>AA\<close> and \<^verbatim>\<open>BB\<close>, the gate
  and the run signal.
\<close>

theorem gate_released_under_another_task:
  "outcome_of (run (\<lambda>v. False)
       [Acquire ''AA'', Connected ''AA'', Settled ''AA'',
        Notification ''AA'' [0, 0xE0, 0xEB, 0xEB, 0xEB, 0x0B, 0, 0x02, 0] 1000000, Acquire ''BB'']
       (start (register_device ''BB'' ''ffb2'' \<lparr>model = TS04, buffer = []\<rparr> None None None None False
        (register_device ''AA'' ''ffb2'' \<lparr>model = TS04, buffer = []\<rparr> None None None None False (new_session 0))))) ''AA'' ''BB''
     = Some (Some Watching, Some Connecting, True, True)
   \<and> outcome_of (run (\<lambda>v. False)
       [Acquire ''AA'', Connected ''AA'', Settled ''AA'',
        Notification ''AA'' [0, 0xE0, 0xEB, 0xEB, 0xEB, 0x0B, 0, 0x02, 0] 1000000, Acquire ''BB'', Pass ''AA'' 3100000]
       (start (register_device ''BB'' ''ffb2'' \<lparr>model = TS04, buffer = []\<rparr> None None None None False
        (register_device ''AA'' ''ffb2'' \<lparr>model = TS04, buffer = []\<rparr> None None None None False (new_session 0))))) ''AA'' ''BB''
     = Some (Some Backoff, Some Connecting, False, True)
   \<and> outcome_of (run (\<lambda>v. False)
       [Acquire ''AA'', Connected ''AA'', Settled ''AA'',
        Notification ''AA'' [0, 0xE0, 0xEB, 0xEB, 0xEB, 0x0B, 0, 0x02, 0] 1000000, Acquire ''BB'', Pass ''AA'' 3100000,
        BackoffOver ''AA'', Acquire ''AA'']
       (start (register_device ''BB'' ''ffb2'' \<lparr>model = TS04, buffer = []\<rparr> None None None None False
        (register_device ''AA'' ''ffb2'' \<lparr>model = TS04, buffer = []\<rparr> None None None None False (new_session 0))))) ''AA'' ''BB''
     = Some (Some Connecting, Some Connecting, True, True)
   \<and> map_option (\<lambda>n. in_section n ''AA'' \<and> in_section n ''BB'')
       (run (\<lambda>v. False)
       [Acquire ''AA'', Connected ''AA'', Settled ''AA'',
        Notification ''AA'' [0, 0xE0, 0xEB, 0xEB, 0xEB, 0x0B, 0, 0x02, 0] 1000000, Acquire ''BB'', Pass ''AA'' 3100000,
        BackoffOver ''AA'', Acquire ''AA'']
       (start (register_device ''BB'' ''ffb2'' \<lparr>model = TS04, buffer = []\<rparr> None None None None False
        (register_device ''AA'' ''ffb2'' \<lparr>model = TS04, buffer = []\<rparr> None None None None False (new_session 0)))))
     = Some True
   \<and> outcome_of (run (\<lambda>v. False)
       [Acquire ''AA'', Connected ''AA'', Settled ''AA'',
        Notification ''AA'' [0, 0xE0, 0xEB, 0xEB, 0xEB, 0x0B, 0, 0x02, 0] 1000000, Acquire ''BB'', Pass ''AA'' 3100000,
        BackoffOver ''AA'', Acquire ''AA'', Connected ''BB'', Settled ''BB'',
        Connected ''AA'', Settled ''AA'']
       (start (register_device ''BB'' ''ffb2'' \<lparr>model = TS04, buffer = []\<rparr> None None None None False
        (register_device ''AA'' ''ffb2'' \<lparr>model = TS04, buffer = []\<rparr> None None None None False (new_session 0))))) ''AA'' ''BB''
     = Some (Some Returned, Some Watching, False, False)"
  by code_simp

end
